theory Spec2Isabelle
  imports Complex_Main "HOL-Library.Word"
begin

section \<open>Conventions of the embedding\<close>

text \<open>
  The three simulators of \<^verbatim>\<open>src/system\<close> are embedded as state-passing functions over
  records that carry the members of the C++ classes under their source names.

  \<^item> \<^verbatim>\<open>QString\<close> is \<open>string\<close>, \<^verbatim>\<open>QList\<close> and \<^verbatim>\<open>QStringList\<close> are lists,
    \<^verbatim>\<open>QMap\<close> is a map.
  \<^item> A \<^verbatim>\<open>QDateTime\<close> is \<open>None\<close> when null (default constructed) and otherwise the
    milliseconds since the epoch.
  \<^item> The clock is an input: a reading holds the milliseconds since the epoch and the
    text Qt renders for the same instant.
  \<^item> \<^verbatim>\<open>std::mt19937\<close> is an input as well: \<open>gen\<close> is the sequence of 32-bit outputs
    of the seeded engine and the member \<^verbatim>\<open>m_randomGenerator\<close> counts the draws made.
  \<^item> \<^verbatim>\<open>emit\<close> appends to a trace of notifications; a write of the configuration file
    is recorded in the same trace. Log lines are not modelled.
  \<^item> A range-based \<^verbatim>\<open>for\<close> that acts on the first matching element and leaves the
    loop is \<open>find\<close> together with \<open>modify_first\<close>.
\<close>

type_synonym QDateTime = "int option"

record clock =
  currentMSecsSinceEpoch :: int
  currentDateTimeText :: string

fun modify_first :: "('a \<Rightarrow> bool) \<Rightarrow> ('a \<Rightarrow> 'a) \<Rightarrow> 'a list \<Rightarrow> 'a list" where
  "modify_first P f [] = []"
| "modify_first P f (x # xs) = (if P x then f x # xs else x # modify_first P f xs)"

fun erase_first :: "('a \<Rightarrow> bool) \<Rightarrow> 'a list \<Rightarrow> 'a list" where
  "erase_first P [] = []"
| "erase_first P (x # xs) = (if P x then xs else x # erase_first P xs)"

subsection \<open>Number formatting (\<^verbatim>\<open>QString::arg\<close>)\<close>

definition digit_char :: "nat \<Rightarrow> char" where
  "digit_char n = ''0123456789ABCDEF'' ! (n mod 16)"

fun nat_to_base :: "nat \<Rightarrow> nat \<Rightarrow> string" where
  "nat_to_base b n =
     (if b < 2 \<or> n < b then [digit_char n]
      else nat_to_base b (n div b) @ [digit_char (n mod b)])"

declare nat_to_base.simps [simp del]

definition int_to_string :: "int \<Rightarrow> string" where
  "int_to_string i =
     (if i < 0 then CHR ''-'' # nat_to_base 10 (nat (- i)) else nat_to_base 10 (nat i))"

definition pad_left :: "nat \<Rightarrow> char \<Rightarrow> string \<Rightarrow> string" where
  "pad_left w c s = replicate (w - length s) c @ s"

section \<open>Wireless device registry (\<^verbatim>\<open>BluetoothSim\<close>)\<close>

datatype BluetoothDeviceType =
  PHONE | HEADSET | SPEAKER | CAR_AUDIO | SMARTWATCH | TABLET | LAPTOP

datatype ConnectionState =
  DISCONNECTED | SEARCHING | CONNECTING | CONNECTED | PAIRING | PAIRED | ERROR

record BluetoothDevice =
  deviceId :: string
  deviceName :: string
  deviceAddress :: string
  deviceType :: BluetoothDeviceType
  connectionState :: ConnectionState
  isPaired :: bool
  isTrusted :: bool
  signalStrength :: int
  lastSeen :: string
  pairedTime :: QDateTime
  supportedProfiles :: "string list"
  manufacturer :: string
  model :: string
  firmwareVersion :: string

text \<open>The notifications of the class, and the write of \<^verbatim>\<open>config/bluetooth_devices.json\<close>
  (the list handed to the serialiser).\<close>

datatype bt_effect =
    deviceDiscovered BluetoothDevice
  | deviceRemoved string
  | devicePaired string
  | deviceUnpaired string
  | deviceConnected string
  | deviceDisconnected string
  | connectionStateChanged string ConnectionState
  | signalStrengthChanged string int
  | pairingError string string
  | connectionError string string
  | discoveryStarted
  | discoveryStopped
  | savePairedDevices "BluetoothDevice list"

text \<open>A single-shot \<^verbatim>\<open>QTimer\<close> allocated by \<^verbatim>\<open>simulatePairingProcess\<close> or
  \<^verbatim>\<open>simulateConnectionProcess\<close>: what it completes, the captured device id and the
  interval it was started with.\<close>

datatype timer_purpose = PairingTimer | ConnectionTimer

record single_shot =
  ss_purpose :: timer_purpose
  ss_deviceId :: string
  ss_interval :: int

record BluetoothSim =
  m_availableDevices :: "BluetoothDevice list"
  m_pairedDevices :: "BluetoothDevice list"
  m_pairingTimers :: "string \<rightharpoonup> nat"
  m_connectionTimers :: "string \<rightharpoonup> nat"
  m_timerObjects :: "nat \<rightharpoonup> single_shot"
  m_nextTimerObject :: nat
  m_discoveryTimer :: "int option"
  m_stateTimer :: "int option"
  m_signalTimer :: "int option"
  m_randomGenerator :: nat
  m_isInitialized :: bool
  m_isDiscovering :: bool
  m_autoReconnect :: bool
  m_simulateBluetoothOff :: bool
  m_simulateInterference :: bool
  m_simulateLowBattery :: bool
  m_discoveryTimeout :: int
  m_pairingTimeout :: int
  m_connectionTimeout :: int
  m_supportedProfiles :: "string list"
  bt_trace :: "bt_effect list"

definition DEFAULT_SUPPORTED_PROFILES :: "string list" where
  "DEFAULT_SUPPORTED_PROFILES =
     [''A2DP'', ''AVRCP'', ''HFP'', ''HSP'', ''PBAP'', ''MAP'', ''OPP'', ''HID'']"

text \<open>The constructor, with no configuration file to load.\<close>

definition BluetoothSim_new :: BluetoothSim where
  "BluetoothSim_new =
     \<lparr> m_availableDevices = [], m_pairedDevices = [],
       m_pairingTimers = Map.empty, m_connectionTimers = Map.empty,
       m_timerObjects = Map.empty, m_nextTimerObject = 0,
       m_discoveryTimer = None, m_stateTimer = None, m_signalTimer = None,
       m_randomGenerator = 0,
       m_isInitialized = False, m_isDiscovering = False, m_autoReconnect = True,
       m_simulateBluetoothOff = False, m_simulateInterference = False,
       m_simulateLowBattery = False,
       m_discoveryTimeout = 30, m_pairingTimeout = 10, m_connectionTimeout = 15,
       m_supportedProfiles = DEFAULT_SUPPORTED_PROFILES,
       bt_trace = [] \<rparr>"

definition emit_bt :: "bt_effect \<Rightarrow> BluetoothSim \<Rightarrow> BluetoothSim" where
  "emit_bt e st = st\<lparr>bt_trace := bt_trace st @ [e]\<rparr>"

definition initialize :: "BluetoothSim \<Rightarrow> bool \<times> BluetoothSim" where
  "initialize st =
     (if m_simulateBluetoothOff st then (False, st)
      else (True, st\<lparr>m_isInitialized := True, m_stateTimer := Some 5000,
                      m_signalTimer := Some 3000\<rparr>))"

definition isInitialized :: "BluetoothSim \<Rightarrow> bool" where
  "isInitialized st \<longleftrightarrow> m_isInitialized st \<and> \<not> m_simulateBluetoothOff st"

definition startDiscovery :: "BluetoothSim \<Rightarrow> BluetoothSim" where
  "startDiscovery st =
     (if \<not> isInitialized st then st
      else emit_bt discoveryStarted
             (st\<lparr>m_isDiscovering := True, m_discoveryTimer := Some 2000\<rparr>))"

definition stopDiscovery :: "BluetoothSim \<Rightarrow> BluetoothSim" where
  "stopDiscovery st =
     emit_bt discoveryStopped (st\<lparr>m_isDiscovering := False, m_discoveryTimer := None\<rparr>)"

definition isDiscovering :: "BluetoothSim \<Rightarrow> bool" where
  "isDiscovering st \<longleftrightarrow> m_isDiscovering st \<and> isInitialized st"

definition isDevicePaired :: "string \<Rightarrow> BluetoothSim \<Rightarrow> bool" where
  "isDevicePaired devId st =
     (case find (\<lambda>d. deviceId d = devId) (m_pairedDevices st) of
        Some d \<Rightarrow> isPaired d
      | None \<Rightarrow> False)"

definition simulatePairingProcess :: "string \<Rightarrow> BluetoothSim \<Rightarrow> BluetoothSim" where
  "simulatePairingProcess devId st =
     (let pairingTimer = m_nextTimerObject st in
      st\<lparr>m_timerObjects := (m_timerObjects st)(pairingTimer \<mapsto>
             \<lparr>ss_purpose = PairingTimer, ss_deviceId = devId,
              ss_interval = m_pairingTimeout st * 1000\<rparr>),
         m_nextTimerObject := Suc pairingTimer,
         m_pairingTimers := (m_pairingTimers st)(devId \<mapsto> pairingTimer)\<rparr>)"

text \<open>The lambda connected to the pairing timer's \<^verbatim>\<open>timeout\<close>, for the timer object
  \<open>pairingTimer\<close> and the captured \<open>devId\<close>. \<^verbatim>\<open>removeOne\<close> removes the first element
  equal to the device just modified in place; \<^verbatim>\<open>BluetoothDevice\<close> declares no
  \<^verbatim>\<open>operator==\<close>, and equality is taken member by member.\<close>

definition pairingTimeout :: "clock \<Rightarrow> nat \<Rightarrow> string \<Rightarrow> BluetoothSim \<Rightarrow> BluetoothSim" where
  "pairingTimeout clk pairingTimer devId st =
     (let st1 =
        (case find (\<lambda>d. deviceId d = devId) (m_availableDevices st) of
           None \<Rightarrow> st
         | Some d \<Rightarrow>
             (let device = d\<lparr>isPaired := True, connectionState := PAIRED,
                            pairedTime := Some (currentMSecsSinceEpoch clk)\<rparr>;
                  available = modify_first (\<lambda>d. deviceId d = devId) (\<lambda>_. device)
                                (m_availableDevices st);
                  paired = m_pairedDevices st @ [device];
                  st' = st\<lparr>m_pairedDevices := paired,
                           m_availableDevices := remove1 device available\<rparr>
              in emit_bt (savePairedDevices paired)
                   (emit_bt (connectionStateChanged devId PAIRED)
                      (emit_bt (devicePaired devId) st'))))
      in st1\<lparr>m_timerObjects := (m_timerObjects st1)(pairingTimer := None),
             m_pairingTimers := (m_pairingTimers st1)(devId := None)\<rparr>)"

definition pairDevice :: "string \<Rightarrow> BluetoothSim \<Rightarrow> bool \<times> BluetoothSim" where
  "pairDevice devId st =
     (if \<not> isInitialized st then (False, st)
      else
        (case find (\<lambda>d. deviceId d = devId) (m_availableDevices st) of
           None \<Rightarrow> (False, st)
         | Some d \<Rightarrow>
             if connectionState d = PAIRING then (False, st)
             else
               (True,
                simulatePairingProcess devId
                  (emit_bt (connectionStateChanged devId PAIRING)
                     (st\<lparr>m_availableDevices :=
                           modify_first (\<lambda>d. deviceId d = devId)
                             (\<lambda>d. d\<lparr>connectionState := PAIRING\<rparr>)
                             (m_availableDevices st)\<rparr>)))))"

definition simulateConnectionProcess :: "string \<Rightarrow> BluetoothSim \<Rightarrow> BluetoothSim" where
  "simulateConnectionProcess devId st =
     (let connectionTimer = m_nextTimerObject st in
      st\<lparr>m_timerObjects := (m_timerObjects st)(connectionTimer \<mapsto>
             \<lparr>ss_purpose = ConnectionTimer, ss_deviceId = devId,
              ss_interval = m_connectionTimeout st * 1000\<rparr>),
         m_nextTimerObject := Suc connectionTimer,
         m_connectionTimers := (m_connectionTimers st)(devId \<mapsto> connectionTimer)\<rparr>)"

definition connectDevice :: "string \<Rightarrow> BluetoothSim \<Rightarrow> bool \<times> BluetoothSim" where
  "connectDevice devId st =
     (if \<not> isInitialized st then (False, st)
      else if \<not> isDevicePaired devId st then (False, st)
      else
        (case find (\<lambda>d. deviceId d = devId) (m_pairedDevices st) of
           None \<Rightarrow> (False, st)
         | Some d \<Rightarrow>
             if connectionState d = CONNECTING then (False, st)
             else
               (True,
                simulateConnectionProcess devId
                  (emit_bt (connectionStateChanged devId CONNECTING)
                     (st\<lparr>m_pairedDevices :=
                           modify_first (\<lambda>d. deviceId d = devId)
                             (\<lambda>d. d\<lparr>connectionState := CONNECTING\<rparr>)
                             (m_pairedDevices st)\<rparr>)))))"

definition getConnectionState :: "string \<Rightarrow> BluetoothSim \<Rightarrow> ConnectionState" where
  "getConnectionState devId st =
     (case find (\<lambda>d. deviceId d = devId) (m_pairedDevices st) of
        Some d \<Rightarrow> connectionState d
      | None \<Rightarrow> DISCONNECTED)"

fun generateSupportedProfiles :: "BluetoothDeviceType \<Rightarrow> string list" where
  "generateSupportedProfiles PHONE = [''A2DP'', ''AVRCP'', ''HFP'', ''HSP'', ''PBAP'', ''MAP'']"
| "generateSupportedProfiles HEADSET = [''A2DP'', ''AVRCP'', ''HFP'', ''HSP'']"
| "generateSupportedProfiles SPEAKER = [''A2DP'', ''AVRCP'']"
| "generateSupportedProfiles CAR_AUDIO = [''A2DP'', ''AVRCP'', ''HFP'', ''HSP'', ''PBAP'', ''MAP'']"
| "generateSupportedProfiles SMARTWATCH = [''HFP'', ''HSP'', ''OPP'']"
| "generateSupportedProfiles _ = [''A2DP'', ''AVRCP'']"

text \<open>\<^verbatim>\<open>QString("%1").arg(m_randomGenerator() % 256, 2, 16, QChar('0')).toUpper()\<close>, six
  times, joined by colons; the draws are \<open>gen n\<close>, \<dots>, \<open>gen (n + 5)\<close>.\<close>

definition address_byte :: "32 word \<Rightarrow> string" where
  "address_byte r = pad_left 2 CHR ''0'' (nat_to_base 16 (unat (r mod 256)))"

definition generateDeviceAddress :: "(nat \<Rightarrow> 32 word) \<Rightarrow> nat \<Rightarrow> string" where
  "generateDeviceAddress gen n =
     address_byte (gen n) @ '':'' @ address_byte (gen (n + 1)) @ '':'' @
     address_byte (gen (n + 2)) @ '':'' @ address_byte (gen (n + 3)) @ '':'' @
     address_byte (gen (n + 4)) @ '':'' @ address_byte (gen (n + 5))"

text \<open>\<^verbatim>\<open>75 + (m_randomGenerator() % 25)\<close> is unsigned arithmetic, stored into an \<^verbatim>\<open>int\<close>.\<close>

definition initialSignalStrength :: "32 word \<Rightarrow> int" where
  "initialSignalStrength r = sint (75 + r mod 25)"

definition simulateDeviceAppearance ::
  "(nat \<Rightarrow> 32 word) \<Rightarrow> clock \<Rightarrow> string \<Rightarrow> BluetoothDeviceType \<Rightarrow> BluetoothSim \<Rightarrow> BluetoothSim" where
  "simulateDeviceAppearance gen clk name type st =
     (let n = m_randomGenerator st;
          device =
            \<lparr> deviceId = ''BT_'' @ int_to_string (currentMSecsSinceEpoch clk),
              deviceName = name,
              deviceAddress = generateDeviceAddress gen n,
              deviceType = type,
              connectionState = DISCONNECTED,
              isPaired = False,
              isTrusted = False,
              signalStrength = initialSignalStrength (gen (n + 6)),
              lastSeen = currentDateTimeText clk,
              pairedTime = None,
              supportedProfiles = generateSupportedProfiles type,
              manufacturer = ''Generic Manufacturer'',
              model = ''Generic Model'',
              firmwareVersion = ''1.0.0'' \<rparr>
      in emit_bt (deviceDiscovered device)
           (st\<lparr>m_randomGenerator := n + 7,
               m_availableDevices := m_availableDevices st @ [device]\<rparr>))"

definition simulateBluetoothOff :: "bool \<Rightarrow> BluetoothSim \<Rightarrow> BluetoothSim" where
  "simulateBluetoothOff enable st =
     (let st' = st\<lparr>m_simulateBluetoothOff := enable\<rparr>
      in if enable then stopDiscovery st' else st')"

section \<open>Floating point (\<^verbatim>\<open>double\<close>)\<close>

text \<open>
  A \<^verbatim>\<open>double\<close> is a finite number, an infinity or NaN. An operation on finite operands
  gives the exact result, or an infinity when that exceeds the largest finite
  \<^verbatim>\<open>double\<close>; rounding to 53 bits and the sign of zero are not modelled. NaN propagates
  through the arithmetic, and every comparison with NaN is false.
\<close>

datatype double = Finite real | PosInf | NegInf | NaN

definition DBL_MAX :: real where
  "DBL_MAX = 2 ^ 1024 - 2 ^ 971"

definition to_double :: "real \<Rightarrow> double" where
  "to_double r = (if DBL_MAX < r then PosInf else if r < - DBL_MAX then NegInf else Finite r)"

fun dneg :: "double \<Rightarrow> double" where
  "dneg (Finite a) = Finite (- a)"
| "dneg PosInf = NegInf"
| "dneg NegInf = PosInf"
| "dneg NaN = NaN"

fun dadd :: "double \<Rightarrow> double \<Rightarrow> double" where
  "dadd (Finite a) (Finite b) = to_double (a + b)"
| "dadd (Finite a) PosInf = PosInf"
| "dadd (Finite a) NegInf = NegInf"
| "dadd PosInf (Finite b) = PosInf"
| "dadd PosInf PosInf = PosInf"
| "dadd PosInf NegInf = NaN"
| "dadd NegInf (Finite b) = NegInf"
| "dadd NegInf PosInf = NaN"
| "dadd NegInf NegInf = NegInf"
| "dadd NaN b = NaN"
| "dadd a NaN = NaN"

definition dsub :: "double \<Rightarrow> double \<Rightarrow> double" where
  "dsub a b = dadd a (dneg b)"

definition inf_of_sign :: "real \<Rightarrow> double" where
  "inf_of_sign a = (if a = 0 then NaN else if 0 < a then PosInf else NegInf)"

fun dmul :: "double \<Rightarrow> double \<Rightarrow> double" where
  "dmul (Finite a) (Finite b) = to_double (a * b)"
| "dmul (Finite a) PosInf = inf_of_sign a"
| "dmul (Finite a) NegInf = inf_of_sign (- a)"
| "dmul PosInf (Finite b) = inf_of_sign b"
| "dmul PosInf PosInf = PosInf"
| "dmul PosInf NegInf = NegInf"
| "dmul NegInf (Finite b) = inf_of_sign (- b)"
| "dmul NegInf PosInf = NegInf"
| "dmul NegInf NegInf = PosInf"
| "dmul NaN b = NaN"
| "dmul a NaN = NaN"

text \<open>\<^verbatim>\<open>a < b\<close> on \<^verbatim>\<open>double\<close>.\<close>

fun dless :: "double \<Rightarrow> double \<Rightarrow> bool" where
  "dless (Finite a) (Finite b) = (a < b)"
| "dless (Finite a) PosInf = True"
| "dless (Finite a) NegInf = False"
| "dless PosInf b = False"
| "dless NegInf (Finite b) = True"
| "dless NegInf PosInf = True"
| "dless NegInf NegInf = False"
| "dless NaN b = False"
| "dless a NaN = False"

text \<open>A finite value between two bounds, which no infinity and no NaN is.\<close>

fun in_range :: "real \<Rightarrow> real \<Rightarrow> double \<Rightarrow> bool" where
  "in_range lo hi (Finite r) = (lo \<le> r \<and> r \<le> hi)"
| "in_range lo hi v = False"

section \<open>JSON values (\<^verbatim>\<open>QJsonValue\<close>)\<close>

text \<open>
  A document is the value handed to \<^verbatim>\<open>QJsonDocument\<close>; writing it with \<^verbatim>\<open>toJson\<close> and
  parsing the text with \<^verbatim>\<open>fromJson\<close> is Qt's and is taken to return the same value.
  An object is an association list, \<^verbatim>\<open>obj[key] = v\<close> replaces or adds the entry,
  and reading a missing key gives \<open>JUndefined\<close>. The conversions return their default
  on a value of another type. A number of a document is finite: Qt writes an infinity
  or NaN as \<^verbatim>\<open>null\<close>.
\<close>

datatype QJsonValue =
    JNull
  | JBool bool
  | JDouble real
  | JString string
  | JArray "QJsonValue list"
  | JObject "(string \<times> QJsonValue) list"
  | JUndefined

type_synonym QJsonObject = "(string \<times> QJsonValue) list"

fun obj_set :: "string \<Rightarrow> QJsonValue \<Rightarrow> QJsonObject \<Rightarrow> QJsonObject" where
  "obj_set k v [] = [(k, v)]"
| "obj_set k v ((k', v') # kvs) =
     (if k' = k then (k, v) # kvs else (k', v') # obj_set k v kvs)"

definition obj_get :: "QJsonObject \<Rightarrow> string \<Rightarrow> QJsonValue" where
  "obj_get obj k = (case map_of obj k of Some v \<Rightarrow> v | None \<Rightarrow> JUndefined)"

fun toString :: "QJsonValue \<Rightarrow> string" where
  "toString (JString s) = s"
| "toString _ = []"

fun toDouble :: "QJsonValue \<Rightarrow> double \<Rightarrow> double" where
  "toDouble (JDouble d) dflt = to_double d"
| "toDouble _ dflt = dflt"

text \<open>The value a \<^verbatim>\<open>double\<close> leaves in a document.\<close>

fun QJsonValue_of_double :: "double \<Rightarrow> QJsonValue" where
  "QJsonValue_of_double (Finite r) = JDouble r"
| "QJsonValue_of_double _ = JNull"

fun toArray :: "QJsonValue \<Rightarrow> QJsonValue list" where
  "toArray (JArray xs) = xs"
| "toArray _ = []"

fun toObject :: "QJsonValue \<Rightarrow> QJsonObject" where
  "toObject (JObject kvs) = kvs"
| "toObject _ = []"

section \<open>Strings and file names (\<^verbatim>\<open>QString\<close>, \<^verbatim>\<open>QFileInfo\<close>)\<close>

text \<open>Case mapping and white space are those of the ASCII range; \<open>/\<close> separates the
  components of a path.\<close>

definition toLower_char :: "char \<Rightarrow> char" where
  "toLower_char c =
     (let n = (of_char c :: nat) in if 65 \<le> n \<and> n \<le> 90 then char_of (n + 32) else c)"

definition toLower :: "string \<Rightarrow> string" where
  "toLower s = map toLower_char s"

definition isSpace :: "char \<Rightarrow> bool" where
  "isSpace c \<longleftrightarrow> (let n = (of_char c :: nat) in n = 32 \<or> (9 \<le> n \<and> n \<le> 13))"

definition trimmed :: "string \<Rightarrow> string" where
  "trimmed s = rev (dropWhile isSpace (rev (dropWhile isSpace s)))"

fun startsWith :: "string \<Rightarrow> string \<Rightarrow> bool" where
  "startsWith s [] = True"
| "startsWith [] (p # ps) = False"
| "startsWith (c # cs) (p # ps) = (c = p \<and> startsWith cs ps)"

definition endsWith :: "string \<Rightarrow> string \<Rightarrow> bool" where
  "endsWith s p = startsWith (rev s) (rev p)"

fun contains :: "string \<Rightarrow> string \<Rightarrow> bool" where
  "contains [] sep = (sep = [])"
| "contains (c # cs) sep = (startsWith (c # cs) sep \<or> contains cs sep)"

text \<open>\<^verbatim>\<open>QString::split(sep)\<close> with a non-empty separator, empty parts kept: \<open>acc\<close> is
  the part being read, reversed.\<close>

fun split_from :: "string \<Rightarrow> string \<Rightarrow> string \<Rightarrow> string list" where
  "split_from sep acc [] = [rev acc]"
| "split_from sep acc (c # cs) =
     (if sep \<noteq> [] \<and> startsWith (c # cs) sep
      then rev acc # split_from sep [] (drop (length sep - 1) cs)
      else split_from sep (c # acc) cs)"

definition split :: "string \<Rightarrow> string \<Rightarrow> string list" where
  "split s sep = split_from sep [] s"

text \<open>\<^verbatim>\<open>QFileInfo(path)\<close>: the file name follows the last \<open>/\<close>, the base name ends
  before its first dot and the suffix follows its last dot.\<close>

definition fileName_of :: "string \<Rightarrow> string" where
  "fileName_of path = rev (takeWhile (\<lambda>c. c \<noteq> CHR ''/'') (rev path))"

definition baseName :: "string \<Rightarrow> string" where
  "baseName path = takeWhile (\<lambda>c. c \<noteq> CHR ''.'') (fileName_of path)"

definition suffix :: "string \<Rightarrow> string" where
  "suffix path =
     (let name = fileName_of path in
      if CHR ''.'' \<in> set name then rev (takeWhile (\<lambda>c. c \<noteq> CHR ''.'') (rev name)) else [])"

text \<open>C++ integer division and remainder truncate towards zero.\<close>

definition c_div :: "int \<Rightarrow> int \<Rightarrow> int" where
  "c_div a b = sgn a * sgn b * (\<bar>a\<bar> div \<bar>b\<bar>)"

definition c_mod :: "int \<Rightarrow> int \<Rightarrow> int" where
  "c_mod a b = a - b * c_div a b"

section \<open>Storage device registry (\<^verbatim>\<open>USBMonitor\<close>)\<close>

record MediaFile =
  fileName :: string
  filePath :: string
  title :: string
  artist :: string
  album :: string
  duration :: string
  fileSize :: int
  fileType :: string
  lastModified :: QDateTime

text \<open>The members \<^verbatim>\<open>deviceId\<close> and \<^verbatim>\<open>deviceName\<close> of \<^verbatim>\<open>USBDevice\<close> carry the prefix
  \<open>usb\<close>, the names being taken by \<open>BluetoothDevice\<close>.\<close>

record USBDevice =
  usbDeviceId :: string
  usbDeviceName :: string
  mountPoint :: string
  totalSpace :: int
  freeSpace :: int
  fileSystem :: string
  isConnected :: bool
  connectedTime :: QDateTime
  mediaFiles :: "MediaFile list"

text \<open>
  The file system is an input. \<open>env_dir\<close> maps a directory path to \<open>None\<close> when the
  directory does not exist and otherwise to its absolute path and its regular files in
  the order \<^verbatim>\<open>QDir\<close> lists them; \<open>env_storage\<close> is \<^verbatim>\<open>QStorageInfo\<close>, \<open>None\<close> when not
  valid.
\<close>

record dir_entry =
  de_fileName :: string
  de_size :: int
  de_lastModified :: QDateTime

record directory =
  dir_absolutePath :: string
  dir_files :: "dir_entry list"

record QStorageInfo =
  bytesTotal :: int
  bytesAvailable :: int
  fileSystemType :: string

record usb_env =
  env_dir :: "string \<Rightarrow> directory option"
  env_storage :: "string \<Rightarrow> QStorageInfo option"

datatype usb_effect =
    usb_deviceConnected USBDevice
  | usb_deviceDisconnected string
  | mediaFilesChanged string "MediaFile list"
  | mountError string string
  | fileSystemError string string
  | mediaFileAdded string MediaFile
  | mediaFileRemoved string string
  | mkpath string

record USBMonitor =
  m_fileSystemWatcher :: "string list"
  m_scanTimer :: "int option"
  m_connectedDevices :: "USBDevice list"
  m_watchDirectories :: "string list"
  m_supportedFormats :: "string list"
  m_isMonitoring :: bool
  m_autoScan :: bool
  m_simulateMountError :: bool
  m_simulateFileSystemError :: bool
  m_simulateCorruptedFiles :: bool
  usb_trace :: "usb_effect list"

definition DEFAULT_SUPPORTED_FORMATS :: "string list" where
  "DEFAULT_SUPPORTED_FORMATS =
     [''mp3'', ''wav'', ''flac'', ''aac'', ''ogg'', ''wma'', ''m4a'',
      ''mp4'', ''avi'', ''mkv'', ''mov'', ''wmv'', ''flv'', ''webm'']"

text \<open>The constructor, with no configuration file to load.\<close>

definition USBMonitor_new :: USBMonitor where
  "USBMonitor_new =
     \<lparr> m_fileSystemWatcher = [], m_scanTimer = None, m_connectedDevices = [],
       m_watchDirectories = [''mnt/usb'', ''media/usb'', ''tmp/usb''],
       m_supportedFormats = DEFAULT_SUPPORTED_FORMATS,
       m_isMonitoring = False, m_autoScan = True, m_simulateMountError = False,
       m_simulateFileSystemError = False, m_simulateCorruptedFiles = False,
       usb_trace = [] \<rparr>"

definition emit_usb :: "usb_effect \<Rightarrow> USBMonitor \<Rightarrow> USBMonitor" where
  "emit_usb e st = st\<lparr>usb_trace := usb_trace st @ [e]\<rparr>"

definition addPath :: "string \<Rightarrow> string list \<Rightarrow> string list" where
  "addPath p ps = (if p \<in> set ps then ps else ps @ [p])"

definition removePath :: "string \<Rightarrow> string list \<Rightarrow> string list" where
  "removePath p ps = removeAll p ps"

definition generateDeviceId :: "clock \<Rightarrow> string" where
  "generateDeviceId clk = ''USB_'' @ int_to_string (currentMSecsSinceEpoch clk)"

definition simulateUSBInsertion :: "clock \<Rightarrow> string \<Rightarrow> USBMonitor \<Rightarrow> USBMonitor" where
  "simulateUSBInsertion clk name st =
     (let devId = generateDeviceId clk;
          mnt = ''mnt/usb/'' @ devId;
          device =
            \<lparr> usbDeviceId = devId, usbDeviceName = name, mountPoint = mnt,
              totalSpace = 32000000000, freeSpace = 28000000000,
              fileSystem = ''FAT32'', isConnected = True,
              connectedTime = Some (currentMSecsSinceEpoch clk),
              mediaFiles = [] \<rparr>;
          st1 = emit_usb (usb_deviceConnected device)
                  ((emit_usb (mkpath mnt) st)
                     \<lparr>m_connectedDevices := m_connectedDevices st @ [device]\<rparr>)
      in if m_isMonitoring st1
         then st1\<lparr>m_fileSystemWatcher := addPath mnt (m_fileSystemWatcher st1)\<rparr>
         else st1)"

definition simulateUSBRemoval :: "string \<Rightarrow> USBMonitor \<Rightarrow> USBMonitor" where
  "simulateUSBRemoval devId st =
     (let targetDeviceId =
            (if devId = [] \<and> m_connectedDevices st \<noteq> []
             then usbDeviceId (hd (m_connectedDevices st)) else devId)
      in case find (\<lambda>d. usbDeviceId d = targetDeviceId) (m_connectedDevices st) of
           None \<Rightarrow> st
         | Some d \<Rightarrow>
             (let st1 = emit_usb (usb_deviceDisconnected targetDeviceId) st;
                  st2 = (if m_isMonitoring st1
                         then st1\<lparr>m_fileSystemWatcher :=
                                    removePath (mountPoint d) (m_fileSystemWatcher st1)\<rparr>
                         else st1)
              in st2\<lparr>m_connectedDevices :=
                       erase_first (\<lambda>d. usbDeviceId d = targetDeviceId)
                         (m_connectedDevices st2)\<rparr>))"

definition isMediaFile :: "string list \<Rightarrow> string \<Rightarrow> bool" where
  "isMediaFile formats name \<longleftrightarrow> toLower (suffix name) \<in> set formats"

text \<open>\<^verbatim>\<open>int durationSeconds\<close> narrows the 64-bit quotient to 32 bits; each \<^verbatim>\<open>arg\<close> pads
  to two digits. The product \<^verbatim>\<open>size * 8\<close> is taken exactly: it stays within \<^verbatim>\<open>qint64\<close>
  for sizes below \<open>2 ^ 60\<close> bytes, and past that C++ leaves the overflow undefined.\<close>

definition format_duration :: "int \<Rightarrow> string" where
  "format_duration q =
     (let durationSeconds = sint (word_of_int q :: 32 word) in
      pad_left 2 CHR ''0'' (int_to_string (c_div durationSeconds 60)) @ '':'' @
      pad_left 2 CHR ''0'' (int_to_string (c_mod durationSeconds 60)))"

definition getFileDuration :: "string \<Rightarrow> int \<Rightarrow> string" where
  "getFileDuration path sz =
     (let extension = toLower (suffix path) in
      if extension = ''mp3'' then format_duration (c_div (sz * 8) (128 * 1024))
      else if extension = ''wav'' then format_duration (c_div sz (44100 * 2 * 2))
      else ''00:00'')"

text \<open>The metadata object; \<open>sz\<close> is what \<^verbatim>\<open>QFileInfo(filePath).size()\<close> reads.\<close>

definition getFileMetadataInternal :: "string \<Rightarrow> int \<Rightarrow> QJsonObject" where
  "getFileMetadataInternal path sz =
     (let name = baseName path;
          metadata = obj_set ''duration'' (JString (getFileDuration path sz))
                       (obj_set ''album'' (JString ''Unknown Album'')
                          (obj_set ''artist'' (JString ''Unknown Artist'')
                             (obj_set ''title'' (JString name) [])))
      in if contains name '' - ''
         then (let parts = split name '' - '' in
               if length parts \<ge> 2
               then obj_set ''title'' (JString (trimmed (parts ! 1)))
                      (obj_set ''artist'' (JString (trimmed (parts ! 0))) metadata)
               else metadata)
         else metadata)"

text \<open>\<^verbatim>\<open>QDir::entryInfoList(filters, QDir::Files)\<close> with the filters \<^verbatim>\<open>*.format\<close>: a name
  passes when it ends, whatever the case, with a dot and one of the formats. A format is
  taken literally: wildcard characters inside a configured format, which \<^verbatim>\<open>QDir\<close> would
  interpret, are not.\<close>

definition matches_filter :: "string \<Rightarrow> string \<Rightarrow> bool" where
  "matches_filter format name \<longleftrightarrow> endsWith (toLower name) (toLower (CHR ''.'' # format))"

definition entryInfoList :: "string list \<Rightarrow> directory \<Rightarrow> dir_entry list" where
  "entryInfoList formats dir =
     filter (\<lambda>e. \<exists>f \<in> set formats. matches_filter f (de_fileName e)) (dir_files dir)"

definition absoluteFilePath :: "directory \<Rightarrow> dir_entry \<Rightarrow> string" where
  "absoluteFilePath dir e =
     (if endsWith (dir_absolutePath dir) ''/'' then dir_absolutePath dir @ de_fileName e
      else dir_absolutePath dir @ ''/'' @ de_fileName e)"

text \<open>The body of the loop over the listed files. The text returned by
  \<^verbatim>\<open>getFileMetadataInternal\<close> is never empty, so the fallback to the file name is not
  taken.\<close>

definition make_mediaFile :: "directory \<Rightarrow> dir_entry \<Rightarrow> MediaFile" where
  "make_mediaFile dir e =
     (let path = absoluteFilePath dir e;
          obj = getFileMetadataInternal path (de_size e)
      in \<lparr> fileName = de_fileName e,
           filePath = path,
           title = toString (obj_get obj ''title''),
           artist = toString (obj_get obj ''artist''),
           album = toString (obj_get obj ''album''),
           duration = toString (obj_get obj ''duration''),
           fileSize = de_size e,
           fileType = toLower (suffix (de_fileName e)),
           lastModified = de_lastModified e \<rparr>)"

definition scan_directory :: "string list \<Rightarrow> directory \<Rightarrow> MediaFile list" where
  "scan_directory formats dir =
     map (make_mediaFile dir)
       (filter (\<lambda>e. isMediaFile formats (de_fileName e)) (entryInfoList formats dir))"

definition updateDeviceSpace :: "usb_env \<Rightarrow> string \<Rightarrow> USBMonitor \<Rightarrow> USBMonitor" where
  "updateDeviceSpace env devId st =
     st\<lparr>m_connectedDevices :=
          modify_first (\<lambda>d. usbDeviceId d = devId)
            (\<lambda>d. case env_storage env (mountPoint d) of
                   None \<Rightarrow> d
                 | Some storage \<Rightarrow>
                     d\<lparr>totalSpace := bytesTotal storage,
                       freeSpace := bytesAvailable storage,
                       fileSystem := fileSystemType storage\<rparr>)
            (m_connectedDevices st)\<rparr>"

text \<open>One iteration of the loop of \<^verbatim>\<open>scanMediaFiles\<close>, for the device at index \<open>i\<close>; the
  loop has no \<^verbatim>\<open>break\<close>, so it visits every index.\<close>

definition scanMediaFiles_step :: "usb_env \<Rightarrow> string \<Rightarrow> nat \<Rightarrow> USBMonitor \<Rightarrow> USBMonitor" where
  "scanMediaFiles_step env devId i st =
     (let device = m_connectedDevices st ! i in
      if usbDeviceId device = devId \<and> isConnected device then
        (case env_dir env (mountPoint device) of
           None \<Rightarrow> st
         | Some dir \<Rightarrow>
             (let files = scan_directory (m_supportedFormats st) dir;
                  st1 = st\<lparr>m_connectedDevices :=
                             (m_connectedDevices st)[i := device\<lparr>mediaFiles := files\<rparr>]\<rparr>
              in emit_usb (mediaFilesChanged devId files) (updateDeviceSpace env devId st1)))
      else st)"

fun scanMediaFiles_loop :: "usb_env \<Rightarrow> string \<Rightarrow> nat list \<Rightarrow> USBMonitor \<Rightarrow> USBMonitor" where
  "scanMediaFiles_loop env devId [] st = st"
| "scanMediaFiles_loop env devId (i # is) st =
     scanMediaFiles_loop env devId is (scanMediaFiles_step env devId i st)"

definition scanMediaFiles :: "usb_env \<Rightarrow> string \<Rightarrow> USBMonitor \<Rightarrow> USBMonitor" where
  "scanMediaFiles env devId st =
     scanMediaFiles_loop env devId [0..<length (m_connectedDevices st)] st"

definition setSupportedFormats :: "string list \<Rightarrow> USBMonitor \<Rightarrow> USBMonitor" where
  "setSupportedFormats formats st = st\<lparr>m_supportedFormats := formats\<rparr>"

text \<open>What the loop of \<^verbatim>\<open>scanMediaFiles\<close> reads of a device to decide whether and where
  to scan.\<close>

definition static_part :: "USBDevice \<Rightarrow> string \<times> bool \<times> string" where
  "static_part d = (usbDeviceId d, isConnected d, mountPoint d)"

section \<open>Sensor simulator (\<^verbatim>\<open>MockI2C\<close>)\<close>

text \<open>
  A \<^verbatim>\<open>std::uniform_real_distribution\<close> is the pair of its bounds, and a sample is
  computed from a draw \<open>u\<close> of the unit interval as \<^verbatim>\<open>(b - a) * u + a\<close>. The raw draws of
  the engine that feed the corruption noise have the engine's result type
  \<^verbatim>\<open>uint_fast32_t\<close>, whose width \<open>'w\<close> depends on the platform.
\<close>

record SensorData =
  temperature :: double
  humidity :: double
  pressure :: double
  lightLevel :: double
  isValid :: bool
  timestamp :: string

datatype i2c_effect =
    dataUpdated SensorData
  | i2c_connectionError string
  | sensorError string
  | calibrationChanged
  | logData SensorData

record MockI2C =
  m_updateTimer :: "int option"
  m_tempDist :: "double \<times> double"
  m_humidityDist :: "double \<times> double"
  m_pressureDist :: "double \<times> double"
  m_lightDist :: "double \<times> double"
  m_currentData :: SensorData
  m_isConnected :: bool
  m_simulateConnectionError :: bool
  m_simulateSensorFailure :: bool
  m_simulateDataCorruption :: bool
  m_dataLoggingEnabled :: bool
  m_tempOffset :: double
  m_humidityOffset :: double
  m_pressureOffset :: double
  m_lightOffset :: double
  m_tempMin :: double
  m_tempMax :: double
  m_humidityMin :: double
  m_humidityMax :: double
  m_pressureMin :: double
  m_pressureMax :: double
  m_lightMin :: double
  m_lightMax :: double
  i2c_trace :: "i2c_effect list"

text \<open>The constructor, with no configuration file to load. It leaves \<^verbatim>\<open>m_currentData\<close>
  uninitialised: \<open>d0\<close> is what the memory holds.\<close>

definition MockI2C_new :: "SensorData \<Rightarrow> MockI2C" where
  "MockI2C_new d0 =
     \<lparr> m_updateTimer = None,
       m_tempDist = (Finite 18, Finite 25), m_humidityDist = (Finite 40, Finite 60),
       m_pressureDist = (Finite 1013, Finite 1013.5), m_lightDist = (Finite 100, Finite 1000),
       m_currentData = d0,
       m_isConnected = False, m_simulateConnectionError = False,
       m_simulateSensorFailure = False, m_simulateDataCorruption = False,
       m_dataLoggingEnabled = False,
       m_tempOffset = Finite 0, m_humidityOffset = Finite 0,
       m_pressureOffset = Finite 0, m_lightOffset = Finite 0,
       m_tempMin = Finite 18, m_tempMax = Finite 25,
       m_humidityMin = Finite 40, m_humidityMax = Finite 60,
       m_pressureMin = Finite 1013, m_pressureMax = Finite 1013.5,
       m_lightMin = Finite 100, m_lightMax = Finite 1000,
       i2c_trace = [] \<rparr>"

definition emit_i2c :: "i2c_effect \<Rightarrow> MockI2C \<Rightarrow> MockI2C" where
  "emit_i2c e st = st\<lparr>i2c_trace := i2c_trace st @ [e]\<rparr>"

definition setTemperatureRange :: "double \<Rightarrow> double \<Rightarrow> MockI2C \<Rightarrow> MockI2C" where
  "setTemperatureRange lo hi st = st\<lparr>m_tempMin := lo, m_tempMax := hi, m_tempDist := (lo, hi)\<rparr>"

definition setHumidityRange :: "double \<Rightarrow> double \<Rightarrow> MockI2C \<Rightarrow> MockI2C" where
  "setHumidityRange lo hi st =
     st\<lparr>m_humidityMin := lo, m_humidityMax := hi, m_humidityDist := (lo, hi)\<rparr>"

definition setPressureRange :: "double \<Rightarrow> double \<Rightarrow> MockI2C \<Rightarrow> MockI2C" where
  "setPressureRange lo hi st =
     st\<lparr>m_pressureMin := lo, m_pressureMax := hi, m_pressureDist := (lo, hi)\<rparr>"

definition setLightRange :: "double \<Rightarrow> double \<Rightarrow> MockI2C \<Rightarrow> MockI2C" where
  "setLightRange lo hi st = st\<lparr>m_lightMin := lo, m_lightMax := hi, m_lightDist := (lo, hi)\<rparr>"

definition simulateDataCorruption :: "bool \<Rightarrow> MockI2C \<Rightarrow> MockI2C" where
  "simulateDataCorruption enable st = st\<lparr>m_simulateDataCorruption := enable\<rparr>"

definition calibrateTemperature :: "double \<Rightarrow> MockI2C \<Rightarrow> MockI2C" where
  "calibrateTemperature offset st = emit_i2c calibrationChanged (st\<lparr>m_tempOffset := offset\<rparr>)"

definition calibrateHumidity :: "double \<Rightarrow> MockI2C \<Rightarrow> MockI2C" where
  "calibrateHumidity offset st = emit_i2c calibrationChanged (st\<lparr>m_humidityOffset := offset\<rparr>)"

definition calibratePressure :: "double \<Rightarrow> MockI2C \<Rightarrow> MockI2C" where
  "calibratePressure offset st = emit_i2c calibrationChanged (st\<lparr>m_pressureOffset := offset\<rparr>)"

definition calibrateLight :: "double \<Rightarrow> MockI2C \<Rightarrow> MockI2C" where
  "calibrateLight offset st = emit_i2c calibrationChanged (st\<lparr>m_lightOffset := offset\<rparr>)"

text \<open>The document written to \<^verbatim>\<open>config/i2c_calibration.json\<close>.\<close>

definition saveCalibrationData :: "MockI2C \<Rightarrow> QJsonValue" where
  "saveCalibrationData st =
     JObject
       (obj_set ''light_range''
          (JArray [QJsonValue_of_double (m_lightMin st), QJsonValue_of_double (m_lightMax st)])
       (obj_set ''pressure_range''
          (JArray [QJsonValue_of_double (m_pressureMin st), QJsonValue_of_double (m_pressureMax st)])
       (obj_set ''humidity_range''
          (JArray [QJsonValue_of_double (m_humidityMin st), QJsonValue_of_double (m_humidityMax st)])
       (obj_set ''temperature_range''
          (JArray [QJsonValue_of_double (m_tempMin st), QJsonValue_of_double (m_tempMax st)])
       (obj_set ''light_offset'' (QJsonValue_of_double (m_lightOffset st))
       (obj_set ''pressure_offset'' (QJsonValue_of_double (m_pressureOffset st))
       (obj_set ''humidity_offset'' (QJsonValue_of_double (m_humidityOffset st))
       (obj_set ''temperature_offset'' (QJsonValue_of_double (m_tempOffset st)) []))))))))"

text \<open>\<open>file\<close> is the document of the configuration file, \<open>None\<close> when the file cannot be
  opened.\<close>

definition loadCalibrationData :: "QJsonValue option \<Rightarrow> MockI2C \<Rightarrow> MockI2C" where
  "loadCalibrationData file st =
     (case file of
        None \<Rightarrow> st
      | Some doc \<Rightarrow>
          (let config = toObject doc;
               st1 = st\<lparr>m_tempOffset := toDouble (obj_get config ''temperature_offset'') (Finite 0),
                        m_humidityOffset := toDouble (obj_get config ''humidity_offset'') (Finite 0),
                        m_pressureOffset := toDouble (obj_get config ''pressure_offset'') (Finite 0),
                        m_lightOffset := toDouble (obj_get config ''light_offset'') (Finite 0)\<rparr>;
               tempRange = toArray (obj_get config ''temperature_range'')
           in if length tempRange = 2
              then (let lo = toDouble (tempRange ! 0) (Finite 18);
                        hi = toDouble (tempRange ! 1) (Finite 25)
                    in st1\<lparr>m_tempMin := lo, m_tempMax := hi, m_tempDist := (lo, hi)\<rparr>)
              else st1))"

definition sample :: "double \<times> double \<Rightarrow> real \<Rightarrow> double" where
  "sample ab u = dadd (dmul (dsub (snd ab) (fst ab)) (Finite u)) (fst ab)"

text \<open>\<^verbatim>\<open>(m_randomGenerator() % 100 - 50) * 0.1\<close>: the subtraction is unsigned and wraps.\<close>

definition corruption_noise :: "'w::len word \<Rightarrow> double" where
  "corruption_noise r = to_double (real (unat (r mod 100 - 50)) * 0.1)"

record 'r i2c_draws =
  u_temperature :: real
  u_humidity :: real
  u_pressure :: real
  u_lightLevel :: real
  r_temperature :: 'r
  r_humidity :: 'r

definition generateRandomData :: "'w::len word i2c_draws \<Rightarrow> MockI2C \<Rightarrow> MockI2C" where
  "generateRandomData rnd st =
     (let d = (m_currentData st)
                \<lparr>temperature := sample (m_tempDist st) (u_temperature rnd),
                 humidity := sample (m_humidityDist st) (u_humidity rnd),
                 pressure := sample (m_pressureDist st) (u_pressure rnd),
                 lightLevel := sample (m_lightDist st) (u_lightLevel rnd)\<rparr>;
          d' = (if m_simulateDataCorruption st
                then d\<lparr>temperature := dadd (temperature d) (corruption_noise (r_temperature rnd)),
                       humidity := dadd (humidity d) (corruption_noise (r_humidity rnd))\<rparr>
                else d)
      in st\<lparr>m_currentData := d'\<rparr>)"

text \<open>\<^verbatim>\<open>std::clamp(v, lo, hi)\<close> is \<^verbatim>\<open>(v < lo) ? lo : (hi < v) ? hi : v\<close>: a NaN fails both
  comparisons and is returned as it is.\<close>

definition clamp :: "double \<Rightarrow> double \<Rightarrow> double \<Rightarrow> double" where
  "clamp v lo hi = (if dless v lo then lo else if dless hi v then hi else v)"

definition applyCalibration :: "MockI2C \<Rightarrow> MockI2C" where
  "applyCalibration st =
     (let d = m_currentData st;
          t = dadd (temperature d) (m_tempOffset st);
          h = dadd (humidity d) (m_humidityOffset st);
          p = dadd (pressure d) (m_pressureOffset st);
          l = dadd (lightLevel d) (m_lightOffset st)
      in st\<lparr>m_currentData :=
              d\<lparr>temperature := clamp t (Finite (- 40)) (Finite 80),
                humidity := clamp h (Finite 0) (Finite 100),
                pressure := clamp p (Finite 800) (Finite 1200),
                lightLevel := clamp l (Finite 0) (Finite 10000)\<rparr>\<rparr>)"

text \<open>The tick of the update timer; \<open>now\<close> is the text of \<^verbatim>\<open>getCurrentTimestamp\<close>.\<close>

definition updateSensorData :: "'w::len word i2c_draws \<Rightarrow> string \<Rightarrow> MockI2C \<Rightarrow> MockI2C" where
  "updateSensorData rnd now st =
     (if m_simulateSensorFailure st
      then emit_i2c (sensorError ''Sensor failure - invalid readings'')
             (st\<lparr>m_currentData := (m_currentData st)\<lparr>isValid := False\<rparr>\<rparr>)
      else
        (let st1 = applyCalibration (generateRandomData rnd st);
             st2 = st1\<lparr>m_currentData := (m_currentData st1)\<lparr>timestamp := now, isValid := True\<rparr>\<rparr>;
             st3 = (if m_dataLoggingEnabled st2 then emit_i2c (logData (m_currentData st2)) st2
                    else st2)
         in emit_i2c (dataUpdated (m_currentData st3)) st3))"

section \<open>Example runs\<close>

text \<open>Concrete clock readings, engine outputs and states reached through the operations
  above; the closed theorems below are evaluated on them.\<close>

definition example_clock :: clock where
  "example_clock = \<lparr>currentMSecsSinceEpoch = 1700000000000, currentDateTimeText = ''2023-11-14 22:13:20''\<rparr>"

definition example_clock_later :: clock where
  "example_clock_later = \<lparr>currentMSecsSinceEpoch = 1700000010000, currentDateTimeText = ''2023-11-14 22:13:30''\<rparr>"

definition example_gen :: "nat \<Rightarrow> 32 word" where
  "example_gen n = 1000 * of_nat n + 255"

definition bt_example_pairing :: BluetoothSim where
  "bt_example_pairing =
     snd (pairDevice ''BT_1700000000000''
            (simulateDeviceAppearance example_gen example_clock ''iPhone 15 Pro'' PHONE
               (snd (initialize BluetoothSim_new))))"

definition bt_example_same_ms :: BluetoothSim where
  "bt_example_same_ms =
     snd (pairDevice ''BT_1700000000000''
            (simulateDeviceAppearance example_gen example_clock ''Sony WH-1000XM5'' HEADSET
               (simulateDeviceAppearance example_gen example_clock ''iPhone 15 Pro'' PHONE
                  (snd (initialize BluetoothSim_new)))))"

definition bt_example_same_ms_paired :: BluetoothSim where
  "bt_example_same_ms_paired =
     pairingTimeout example_clock_later 0 ''BT_1700000000000'' bt_example_same_ms"

definition bt_example_discovering :: BluetoothSim where
  "bt_example_discovering = startDiscovery (snd (initialize BluetoothSim_new))"

definition example_directory :: directory where
  "example_directory =
     \<lparr> dir_absolutePath = ''/opt/autodash/mnt/usb/USB_1700000000000'',
       dir_files = [\<lparr>de_fileName = ''Artist - Title.mp3'', de_size = 4000000,
                      de_lastModified = Some 1690000000000\<rparr>,
                    \<lparr>de_fileName = ''notes.txt'', de_size = 120,
                      de_lastModified = Some 1690000000000\<rparr>] \<rparr>"

definition example_env :: usb_env where
  "example_env =
     \<lparr> env_dir = (\<lambda>p. if p = ''mnt/usb/USB_1700000000000'' then Some example_directory else None),
       env_storage = (\<lambda>p. None) \<rparr>"

definition usb_example_inserted :: USBMonitor where
  "usb_example_inserted = simulateUSBInsertion example_clock ''USB_DRIVE_01'' USBMonitor_new"

definition usb_example_wav_only :: USBMonitor where
  "usb_example_wav_only = setSupportedFormats [''wav''] usb_example_inserted"

definition example_sensor_data :: SensorData where
  "example_sensor_data =
     \<lparr> temperature = Finite 0, humidity = Finite 0, pressure = Finite 0,
       lightLevel = Finite 0, isValid = False, timestamp = [] \<rparr>"

definition example_draws :: "64 word i2c_draws" where
  "example_draws =
     \<lparr> u_temperature = 1 / 2, u_humidity = 1 / 4, u_pressure = 0, u_lightLevel = 3 / 4,
       r_temperature = 3, r_humidity = 53 \<rparr>"

definition i2c_example_corrupted :: MockI2C where
  "i2c_example_corrupted =
     simulateDataCorruption True
       (calibrateLight (Finite (- 5000)) (MockI2C_new example_sensor_data))"

definition i2c_example_nan_offset :: MockI2C where
  "i2c_example_nan_offset = calibrateTemperature NaN (MockI2C_new example_sensor_data)"

definition i2c_example_configured :: MockI2C where
  "i2c_example_configured =
     calibrateHumidity (Finite 2)
       (setHumidityRange (Finite 30) (Finite 70) (MockI2C_new example_sensor_data))"

definition i2c_example_restarted :: MockI2C where
  "i2c_example_restarted =
     loadCalibrationData (Some (saveCalibrationData i2c_example_configured))
       (MockI2C_new example_sensor_data)"

section \<open>Properties of the wireless device registry\<close>

lemmas bt_eval = pairDevice_def simulateDeviceAppearance_def initialize_def BluetoothSim_new_def
  isInitialized_def emit_bt_def simulatePairingProcess_def generateDeviceAddress_def address_byte_def
  initialSignalStrength_def int_to_string_def nat_to_base.simps digit_char_def pad_left_def
  example_gen_def example_clock_def example_clock_later_def Let_def

lemma bt_example_pairing_available:
  "m_availableDevices bt_example_pairing =
  [\<lparr>deviceId = ''BT_1700000000000'', deviceName = ''iPhone 15 Pro'',
     deviceAddress = ''FF:E7:CF:B7:9F:87'', deviceType = PHONE,
     connectionState = PAIRING, isPaired = False, isTrusted = False,
     signalStrength = 80, lastSeen = ''2023-11-14 22:13:20'',
     pairedTime = None,
     supportedProfiles =
       [''A2DP'', ''AVRCP'', ''HFP'', ''HSP'', ''PBAP'', ''MAP''],
     manufacturer = ''Generic Manufacturer'', model = ''Generic Model'',
     firmwareVersion = ''1.0.0''\<rparr>]"
  unfolding bt_example_pairing_def by (simp add: bt_eval)

lemma bt_example_pairing_paired: "m_pairedDevices bt_example_pairing = []"
  unfolding bt_example_pairing_def by (simp add: bt_eval)

lemma bt_example_pairing_timer:
  "m_pairingTimers bt_example_pairing ''BT_1700000000000'' = Some 0"
  unfolding bt_example_pairing_def by (simp add: bt_eval)

lemma bt_example_same_ms_ids:
  "map deviceId (m_availableDevices bt_example_same_ms) = [''BT_1700000000000'', ''BT_1700000000000'']"
  "map deviceName (m_availableDevices bt_example_same_ms) = [''iPhone 15 Pro'', ''Sony WH-1000XM5'']"
  "map connectionState (m_availableDevices bt_example_same_ms) = [PAIRING, DISCONNECTED]"
  "m_pairedDevices bt_example_same_ms = []"
  unfolding bt_example_same_ms_def by (simp_all add: bt_eval)

lemma find_Some_D: "find P xs = Some x \<Longrightarrow> P x \<and> x \<in> set xs"
  by (induction xs) (auto split: if_splits)

lemma find_None_iff_image: "find (\<lambda>d. f d = k) xs = None \<longleftrightarrow> k \<notin> f ` set xs"
  by (induction xs) auto

lemma remove1_modify_first:
  "P y \<Longrightarrow> remove1 y (modify_first P (\<lambda>_. y) xs) = erase_first P xs"
  by (induction xs) auto

lemma pairingTimeout_lists:
  assumes "find (\<lambda>x. deviceId x = devId) (m_availableDevices st) = Some d"
  shows "m_availableDevices (pairingTimeout clk h devId st) = erase_first (\<lambda>x. deviceId x = devId) (m_availableDevices st)"
    and "m_pairedDevices (pairingTimeout clk h devId st) = m_pairedDevices st @
       [d\<lparr>isPaired := True, connectionState := PAIRED, pairedTime := Some (currentMSecsSinceEpoch clk)\<rparr>]"
proof -
  from assms have "deviceId d = devId" by (auto dest: find_Some_D)
  then show "m_availableDevices (pairingTimeout clk h devId st) = erase_first (\<lambda>x. deviceId x = devId) (m_availableDevices st)"
    using assms by (simp add: pairingTimeout_def Let_def emit_bt_def remove1_modify_first)
  show "m_pairedDevices (pairingTimeout clk h devId st) = m_pairedDevices st @
       [d\<lparr>isPaired := True, connectionState := PAIRED, pairedTime := Some (currentMSecsSinceEpoch clk)\<rparr>]"
    using assms by (simp add: pairingTimeout_def Let_def emit_bt_def)
qed

subsection \<open>C1: completion of a pairing\<close>

text \<open>
  Claim C1 at a concrete input. \<^verbatim>\<open>simulateDeviceAppearance\<close> derives the id of a device
  from the millisecond clock, so two devices that appear within one millisecond (the two
  calls at start-up, the seven of \<^verbatim>\<open>generateMockDevices\<close>) carry the same id, while
  every lookup of the registry and both timer maps take the id for a key. In
  \<open>bt_example_same_ms\<close> two such devices are available and the first is being paired.
  When its timer fires, \<open>pairingTimeout\<close> moves the record of the first device to the
  paired collection, with the paired flag and the state \<open>PAIRED\<close>, and leaves the record
  of the second: the id is then a member of the paired and of the available collection
  at once.
\<close>

theorem pairing_completion_shared_id:
  "map deviceId (m_availableDevices bt_example_same_ms)
     = [''BT_1700000000000'', ''BT_1700000000000''] \<and>
   map deviceName (m_availableDevices bt_example_same_ms)
     = [''iPhone 15 Pro'', ''Sony WH-1000XM5''] \<and>
   map connectionState (m_availableDevices bt_example_same_ms) = [PAIRING, DISCONNECTED] \<and>
   m_pairedDevices bt_example_same_ms = [] \<and>
   map deviceName (m_pairedDevices bt_example_same_ms_paired) = [''iPhone 15 Pro''] \<and>
   map isPaired (m_pairedDevices bt_example_same_ms_paired) = [True] \<and>
   map connectionState (m_pairedDevices bt_example_same_ms_paired) = [PAIRED] \<and>
   map deviceName (m_availableDevices bt_example_same_ms_paired) = [''Sony WH-1000XM5''] \<and>
   ''BT_1700000000000'' \<in> deviceId ` set (m_pairedDevices bt_example_same_ms_paired) \<and>
   ''BT_1700000000000'' \<in> deviceId ` set (m_availableDevices bt_example_same_ms_paired)"
proof -
  note e = bt_example_same_ms_ids
  obtain a b where av: "m_availableDevices bt_example_same_ms = [a, b]"
    and ids: "deviceId a = ''BT_1700000000000''" "deviceId b = ''BT_1700000000000''"
    and names: "deviceName a = ''iPhone 15 Pro''" "deviceName b = ''Sony WH-1000XM5''"
    using e(1,2) by (auto simp: map_eq_Cons_conv)
  have f: "find (\<lambda>x. deviceId x = ''BT_1700000000000'') (m_availableDevices bt_example_same_ms)
             = Some a"
    by (simp add: av ids)
  show ?thesis
    unfolding bt_example_same_ms_paired_def pairingTimeout_lists [OF f] e
    by (simp add: av ids names)
qed

subsection \<open>C2: connecting a device that is not paired\<close>

text \<open>
  Claim C2: for a device id that is not in the paired collection, or whose record there
  has the paired flag false, \<^verbatim>\<open>connectDevice\<close> returns false and the simulator is left
  as it was: both collections with every connection state, the timers and the trace of
  notifications.
\<close>

theorem connectDevice_unpaired_rejected:
  assumes "devId \<notin> deviceId ` set (m_pairedDevices st) \<or>
           (\<exists>d. find (\<lambda>d. deviceId d = devId) (m_pairedDevices st) = Some d \<and> \<not> isPaired d)"
  shows "connectDevice devId st = (False, st)"
proof -
  have "\<not> isDevicePaired devId st"
    using assms by (auto simp: isDevicePaired_def find_None_iff_image[symmetric] split: option.splits)
  then show ?thesis by (simp add: connectDevice_def)
qed

theorem connectDevice_unpaired_rejected_witness:
  "''BT_1700000000000'' \<notin> deviceId ` set (m_pairedDevices bt_example_pairing) \<and>
   connectDevice ''BT_1700000000000'' bt_example_pairing = (False, bt_example_pairing)"
proof -
  have h: "''BT_1700000000000'' \<notin> deviceId ` set (m_pairedDevices bt_example_pairing)"
    by (simp add: bt_example_pairing_paired)
  then show ?thesis
    using connectDevice_unpaired_rejected [of "''BT_1700000000000''" bt_example_pairing] by blast
qed

subsection \<open>C6: a second pairing request\<close>

text \<open>
  Claim C6: when the device that the id resolves to in the available collection is in
  state \<open>PAIRING\<close>, \<^verbatim>\<open>pairDevice\<close> returns false and leaves the simulator as it was; in
  particular no timer object is created and the entry of \<^verbatim>\<open>m_pairingTimers\<close> for the id
  still names the pending timer.
\<close>

theorem pairDevice_while_pairing_rejected:
  assumes "find (\<lambda>d. deviceId d = devId) (m_availableDevices st) = Some d"
    and "connectionState d = PAIRING"
  shows "pairDevice devId st = (False, st)"
  using assms by (simp add: pairDevice_def)

theorem pairDevice_while_pairing_rejected_witness:
  "find (\<lambda>d. deviceId d = ''BT_1700000000000'') (m_availableDevices bt_example_pairing)
     = Some (hd (m_availableDevices bt_example_pairing)) \<and>
   connectionState (hd (m_availableDevices bt_example_pairing)) = PAIRING \<and>
   pairDevice ''BT_1700000000000'' bt_example_pairing = (False, bt_example_pairing) \<and>
   m_pairingTimers (snd (pairDevice ''BT_1700000000000'' bt_example_pairing)) ''BT_1700000000000''
     = Some 0"
proof -
  have h1: "find (\<lambda>d. deviceId d = ''BT_1700000000000'') (m_availableDevices bt_example_pairing)
     = Some (hd (m_availableDevices bt_example_pairing))"
    by (simp add: bt_example_pairing_available)
  have h2: "connectionState (hd (m_availableDevices bt_example_pairing)) = PAIRING"
    by (simp add: bt_example_pairing_available)
  from pairDevice_while_pairing_rejected [OF h1 h2] h1 h2 show ?thesis
    by (simp add: bt_example_pairing_timer)
qed

subsection \<open>C9: the connection state of a device that is not paired\<close>

text \<open>
  Claim C9: for a device id that is not in the paired collection \<^verbatim>\<open>getConnectionState\<close>
  returns \<open>DISCONNECTED\<close>, whatever the available collection holds; the witness is a
  state in which the id is available and in state \<open>PAIRING\<close>.
\<close>

theorem getConnectionState_ignores_available:
  assumes "devId \<notin> deviceId ` set (m_pairedDevices st)"
  shows "getConnectionState devId st = DISCONNECTED \<and>
         (\<forall>available. getConnectionState devId (st\<lparr>m_availableDevices := available\<rparr>) = DISCONNECTED)"
  using assms by (simp add: getConnectionState_def find_None_iff_image[symmetric])

theorem getConnectionState_ignores_available_witness:
  "''BT_1700000000000'' \<notin> deviceId ` set (m_pairedDevices bt_example_pairing) \<and>
   map connectionState (m_availableDevices bt_example_pairing) = [PAIRING] \<and>
   map deviceId (m_availableDevices bt_example_pairing) = [''BT_1700000000000''] \<and>
   getConnectionState ''BT_1700000000000'' bt_example_pairing = DISCONNECTED"
proof -
  have h: "''BT_1700000000000'' \<notin> deviceId ` set (m_pairedDevices bt_example_pairing)"
    by (simp add: bt_example_pairing_paired)
  from getConnectionState_ignores_available [OF h] h show ?thesis
    by (simp add: bt_example_pairing_available)
qed

subsection \<open>C5: appearance of a phone\<close>

lemma initialSignalStrength_bounds:
  "75 \<le> initialSignalStrength r \<and> initialSignalStrength r \<le> 99"
proof -
  have lt: "r mod 25 < 25" by (simp add: word_mod_less_divisor)
  then have u: "unat (r mod 25) < 25" by (simp add: word_less_nat_alt)
  from lt have u': "uint (r mod 25) < 25" by (simp add: word_less_def)
  have e: "unat (75 + r mod 25) = 75 + unat (r mod 25)"
    using u by (simp add: unat_word_ariths)
  have "uint (75 + r mod 25) = int (unat (75 + r mod 25))" by simp
  then have ui: "uint (75 + r mod 25) = 75 + uint (r mod 25)"
    unfolding e by simp
  have "sint (75 + r mod 25) = signed_take_bit 31 (uint (75 + r mod 25))"
    by (simp add: sint_uint)
  also have "\<dots> = uint (75 + r mod 25)"
    by (rule signed_take_bit_int_eq_self) (use ui u' in simp_all)
  finally show ?thesis using u' ui unfolding initialSignalStrength_def by simp
qed

text \<open>
  Claim C5: \<^verbatim>\<open>simulateDeviceAppearance\<close> with type \<open>PHONE\<close> appends one record to the
  available collection; it has the given name, its supported profiles are exactly A2DP,
  AVRCP, HFP, HSP, PBAP and MAP, and its signal strength lies in [75, 100].
\<close>

theorem phone_appearance_profiles_and_signal:
  "\<exists>device.
     m_availableDevices (simulateDeviceAppearance gen clk name PHONE st)
       = m_availableDevices st @ [device] \<and>
     deviceName device = name \<and> deviceType device = PHONE \<and>
     supportedProfiles device = [''A2DP'', ''AVRCP'', ''HFP'', ''HSP'', ''PBAP'', ''MAP''] \<and>
     set (supportedProfiles device) = {''A2DP'', ''AVRCP'', ''HFP'', ''HSP'', ''PBAP'', ''MAP''} \<and>
     75 \<le> signalStrength device \<and> signalStrength device \<le> 100"
proof -
  have "75 \<le> initialSignalStrength (gen (m_randomGenerator st + 6))"
    "initialSignalStrength (gen (m_randomGenerator st + 6)) \<le> 100"
    using initialSignalStrength_bounds [of "gen (m_randomGenerator st + 6)"] by simp_all
  then show ?thesis
    by (simp add: simulateDeviceAppearance_def Let_def emit_bt_def)
qed

subsection \<open>C7: the Bluetooth-off fault\<close>

text \<open>
  Claim C7: enabling the fault with \<^verbatim>\<open>simulateBluetoothOff(true)\<close> sets the flag, clears
  \<^verbatim>\<open>m_isDiscovering\<close> and stops the discovery timer; and in every state \<open>s\<close> in which
  the flag is set, \<^verbatim>\<open>startDiscovery\<close> changes nothing (no timer started, nothing
  emitted) and \<^verbatim>\<open>isDiscovering\<close> is false.
\<close>

theorem bluetooth_off_blocks_discovery:
  "m_simulateBluetoothOff (simulateBluetoothOff True st) \<and>
   \<not> m_isDiscovering (simulateBluetoothOff True st) \<and>
   m_discoveryTimer (simulateBluetoothOff True st) = None \<and>
   (m_simulateBluetoothOff s \<longrightarrow> startDiscovery s = s \<and> \<not> isDiscovering s)"
  by (simp add: simulateBluetoothOff_def stopDiscovery_def emit_bt_def startDiscovery_def
      isDiscovering_def isInitialized_def)

lemma bt_example_discovering_on:
  "isDiscovering bt_example_discovering" "m_discoveryTimer bt_example_discovering = Some 2000"
  by (simp_all add: bt_example_discovering_def startDiscovery_def isDiscovering_def bt_eval)

theorem bluetooth_off_blocks_discovery_witness:
  "isDiscovering bt_example_discovering \<and>
   m_simulateBluetoothOff (simulateBluetoothOff True bt_example_discovering) \<and>
   startDiscovery (simulateBluetoothOff True bt_example_discovering)
     = simulateBluetoothOff True bt_example_discovering \<and>
   \<not> isDiscovering (simulateBluetoothOff True bt_example_discovering) \<and>
   m_discoveryTimer (simulateBluetoothOff True bt_example_discovering) = None"
  using bluetooth_off_blocks_discovery
    [of bt_example_discovering "simulateBluetoothOff True bt_example_discovering"]
    bt_example_discovering_on(1)
  by blast

section \<open>Properties of the storage device registry\<close>

subsection \<open>C10: removal with an empty device id\<close>

text \<open>
  Claim C10: \<^verbatim>\<open>simulateUSBRemoval\<close> with the empty id leaves an empty registry as it is
  and emits nothing; on a non-empty registry it emits the disconnected notification of
  the first device, stops watching its mount point when monitoring is active, and
  removes that device, the others keeping their order.
\<close>

theorem simulateUSBRemoval_default_id:
  "simulateUSBRemoval [] st =
     (case m_connectedDevices st of
        [] \<Rightarrow> st
      | d # ds \<Rightarrow>
          st\<lparr>usb_trace := usb_trace st @ [usb_deviceDisconnected (usbDeviceId d)],
             m_fileSystemWatcher :=
               (if m_isMonitoring st then removePath (mountPoint d) (m_fileSystemWatcher st)
                else m_fileSystemWatcher st),
             m_connectedDevices := ds\<rparr>)"
  by (cases "m_connectedDevices st") (simp_all add: simulateUSBRemoval_def emit_usb_def Let_def)

subsection \<open>C8: scanning a device\<close>

lemma modify_first_map_inv:
  "(\<And>x. g (f x) = g x) \<Longrightarrow> map g (modify_first P f xs) = map g xs"
  by (induction xs) auto

lemma length_modify_first [simp]: "length (modify_first P f xs) = length xs"
  by (induction xs) auto

lemma nth_modify_first_inv:
  assumes "\<And>x. g (f x) = g x" "k < length xs"
  shows "g (modify_first P f xs ! k) = g (xs ! k)"
proof -
  have "map g (modify_first P f xs) ! k = map g xs ! k"
    using assms(1) by (simp add: modify_first_map_inv)
  then show ?thesis using assms(2) by simp
qed

lemma updateDeviceSpace_facts:
  "length (m_connectedDevices (updateDeviceSpace env devId st)) = length (m_connectedDevices st)"
  "m_supportedFormats (updateDeviceSpace env devId st) = m_supportedFormats st"
  "k < length (m_connectedDevices st) \<Longrightarrow>
     static_part (m_connectedDevices (updateDeviceSpace env devId st) ! k) = static_part (m_connectedDevices st ! k)"
  "k < length (m_connectedDevices st) \<Longrightarrow>
     mediaFiles (m_connectedDevices (updateDeviceSpace env devId st) ! k) = mediaFiles (m_connectedDevices st ! k)"
  by (simp_all add: updateDeviceSpace_def nth_modify_first_inv static_part_def split: option.splits)

lemma list_update_static:
  "k < length xs \<Longrightarrow> static_part (xs[j := (xs ! j)\<lparr>mediaFiles := fs\<rparr>] ! k) = static_part (xs ! k)"
  by (cases "j = k") (simp_all add: static_part_def)

lemma step_facts:
  "length (m_connectedDevices (scanMediaFiles_step env devId j st)) = length (m_connectedDevices st)"
  "m_supportedFormats (scanMediaFiles_step env devId j st) = m_supportedFormats st"
  "k < length (m_connectedDevices st) \<Longrightarrow>
     static_part (m_connectedDevices (scanMediaFiles_step env devId j st) ! k) = static_part (m_connectedDevices st ! k)"
  "k < length (m_connectedDevices st) \<Longrightarrow> k \<noteq> j \<Longrightarrow>
     mediaFiles (m_connectedDevices (scanMediaFiles_step env devId j st) ! k) = mediaFiles (m_connectedDevices st ! k)"
  by (simp_all add: scanMediaFiles_step_def Let_def emit_usb_def updateDeviceSpace_facts
      list_update_static split: option.splits)

lemma step_self:
  assumes "j < length (m_connectedDevices st)"
    and "static_part (m_connectedDevices st ! j) = (devId, True, mnt)"
    and "env_dir env mnt = Some dir"
  shows "mediaFiles (m_connectedDevices (scanMediaFiles_step env devId j st) ! j)
           = scan_directory (m_supportedFormats st) dir"
  using assms
  by (simp add: scanMediaFiles_step_def Let_def emit_usb_def updateDeviceSpace_facts static_part_def)

lemma loop_facts:
  "length (m_connectedDevices (scanMediaFiles_loop env devId js st)) = length (m_connectedDevices st) \<and>
   m_supportedFormats (scanMediaFiles_loop env devId js st) = m_supportedFormats st \<and>
   (\<forall>k < length (m_connectedDevices st).
     static_part (m_connectedDevices (scanMediaFiles_loop env devId js st) ! k) = static_part (m_connectedDevices st ! k) \<and>
     (k \<notin> set js \<longrightarrow> mediaFiles (m_connectedDevices (scanMediaFiles_loop env devId js st) ! k)
          = mediaFiles (m_connectedDevices st ! k)))"
  by (induction js arbitrary: st) (simp_all add: step_facts)

lemma loop_self:
  assumes "i < length (m_connectedDevices st)"
    and "static_part (m_connectedDevices st ! i) = (devId, True, mnt)"
    and "env_dir env mnt = Some dir"
    and "i \<in> set js" and "distinct js"
  shows "mediaFiles (m_connectedDevices (scanMediaFiles_loop env devId js st) ! i)
           = scan_directory (m_supportedFormats st) dir"
  using assms
proof (induction js arbitrary: st)
  case Nil
  then show ?case by simp
next
  case (Cons j js)
  let ?st1 = "scanMediaFiles_step env devId j st"
  show ?case
  proof (cases "j = i")
    case True
    with Cons.prems have "i \<notin> set js" by simp
    moreover have "i < length (m_connectedDevices ?st1)" using Cons.prems by (simp add: step_facts)
    ultimately have "mediaFiles (m_connectedDevices (scanMediaFiles_loop env devId js ?st1) ! i)
            = mediaFiles (m_connectedDevices ?st1 ! i)"
      using loop_facts [of env devId js ?st1] by simp
    also have "\<dots> = scan_directory (m_supportedFormats st) dir"
      using Cons.prems True step_self [of i st devId mnt env dir] by simp
    finally show ?thesis using True by simp
  next
    case False
    with Cons.prems have "i \<in> set js" "distinct js" by simp_all
    moreover have "i < length (m_connectedDevices ?st1)" using Cons.prems by (simp add: step_facts)
    moreover have "static_part (m_connectedDevices ?st1 ! i) = (devId, True, mnt)"
      using Cons.prems by (simp add: step_facts)
    ultimately have "mediaFiles (m_connectedDevices (scanMediaFiles_loop env devId js ?st1) ! i)
           = scan_directory (m_supportedFormats ?st1) dir"
      using Cons.IH [of ?st1] Cons.prems(3) by simp
    then show ?thesis by (simp add: step_facts)
  qed
qed

lemma scanMediaFiles_replaces:
  assumes "i < length (m_connectedDevices st)"
    and "isConnected (m_connectedDevices st ! i)"
    and "env_dir env (mountPoint (m_connectedDevices st ! i)) = Some dir"
  shows "mediaFiles (m_connectedDevices (scanMediaFiles env (usbDeviceId (m_connectedDevices st ! i)) st) ! i)
           = scan_directory (m_supportedFormats st) dir"
  unfolding scanMediaFiles_def
  by (rule loop_self [where mnt = "mountPoint (m_connectedDevices st ! i)"])
     (use assms in \<open>simp_all add: static_part_def\<close>)


lemma fileName_of_append:
  assumes "CHR ''/'' \<notin> set n"
  shows "fileName_of (p @ CHR ''/'' # n) = n"
proof -
  have "takeWhile (\<lambda>c. c \<noteq> CHR ''/'') (rev n @ CHR ''/'' # rev p) = rev n @ []"
    using assms by (subst takeWhile_append2) auto
  then show ?thesis by (simp add: fileName_of_def)
qed

lemma endsWith_slash: "endsWith p ''/'' \<Longrightarrow> \<exists>q. p = q @ ''/''"
  by (cases p rule: rev_cases) (simp_all add: endsWith_def)

lemma fileName_of_absoluteFilePath:
  assumes "CHR ''/'' \<notin> set (de_fileName e)"
  shows "fileName_of (absoluteFilePath dir e) = de_fileName e"
proof (cases "endsWith (dir_absolutePath dir) ''/''")
  case True
  then obtain q where "dir_absolutePath dir = q @ ''/''" using endsWith_slash by blast
  then show ?thesis using True assms fileName_of_append [of "de_fileName e" q]
    by (simp add: absoluteFilePath_def)
next
  case False
  then show ?thesis using assms fileName_of_append [of "de_fileName e" "dir_absolutePath dir"]
    by (simp add: absoluteFilePath_def)
qed

lemma sample_name_parts:
  "takeWhile (\<lambda>c. c \<noteq> CHR ''.'') ''Artist - Title.mp3'' = ''Artist - Title''"
  "contains ''Artist - Title'' '' - ''"
  "split ''Artist - Title'' '' - '' = [''Artist'', ''Title'']"
  "trimmed ''Artist'' = ''Artist''"
  "trimmed ''Title'' = ''Title''"
  "toLower (suffix ''Artist - Title.mp3'') = ''mp3''"
  "matches_filter ''mp3'' ''Artist - Title.mp3''"
  by (simp_all add: split_def trimmed_def isSpace_def toLower_def toLower_char_def suffix_def
      fileName_of_def matches_filter_def endsWith_def Let_def)

lemma make_mediaFile_sample:
  assumes "de_fileName e = ''Artist - Title.mp3''"
  shows "fileName (make_mediaFile dir e) = ''Artist - Title.mp3''"
    and "artist (make_mediaFile dir e) = ''Artist''"
    and "title (make_mediaFile dir e) = ''Title''"
    and "fileType (make_mediaFile dir e) = ''mp3''"
proof -
  have "CHR ''/'' \<notin> set (de_fileName e)" using assms by simp
  then have b: "baseName (absoluteFilePath dir e) = ''Artist - Title''"
    using assms by (simp add: baseName_def fileName_of_absoluteFilePath sample_name_parts)
  show "fileName (make_mediaFile dir e) = ''Artist - Title.mp3''"
    using assms by (simp add: make_mediaFile_def Let_def)
  show "artist (make_mediaFile dir e) = ''Artist''"
    by (simp add: make_mediaFile_def getFileMetadataInternal_def Let_def b sample_name_parts obj_get_def)
  show "title (make_mediaFile dir e) = ''Title''"
    by (simp add: make_mediaFile_def getFileMetadataInternal_def Let_def b sample_name_parts obj_get_def)
  show "fileType (make_mediaFile dir e) = ''mp3''"
    using assms by (simp add: make_mediaFile_def Let_def sample_name_parts)
qed

lemma scan_directory_sample:
  assumes "e \<in> set (dir_files dir)" and "de_fileName e = ''Artist - Title.mp3''"
    and "''mp3'' \<in> set formats"
  shows "make_mediaFile dir e \<in> set (scan_directory formats dir)"
proof -
  have "\<exists>f \<in> set formats. matches_filter f (de_fileName e)"
    using assms sample_name_parts(7) by auto
  moreover have "isMediaFile formats (de_fileName e)"
    using assms by (simp add: isMediaFile_def sample_name_parts)
  ultimately show ?thesis
    using assms(1) by (simp add: scan_directory_def entryInfoList_def)
qed


lemmas usb_eval = simulateUSBInsertion_def USBMonitor_new_def generateDeviceId_def emit_usb_def
  int_to_string_def nat_to_base.simps digit_char_def example_clock_def Let_def
  setSupportedFormats_def DEFAULT_SUPPORTED_FORMATS_def

lemma usb_example_inserted_devices:
  "m_connectedDevices usb_example_inserted =
     [\<lparr>usbDeviceId = ''USB_1700000000000'', usbDeviceName = ''USB_DRIVE_01'',
       mountPoint = ''mnt/usb/USB_1700000000000'', totalSpace = 32000000000,
       freeSpace = 28000000000, fileSystem = ''FAT32'', isConnected = True,
       connectedTime = Some 1700000000000, mediaFiles = []\<rparr>]"
  "m_supportedFormats usb_example_inserted = DEFAULT_SUPPORTED_FORMATS"
  by (simp_all add: usb_example_inserted_def usb_eval)

lemma usb_example_wav_only_devices:
  "m_connectedDevices usb_example_wav_only = m_connectedDevices usb_example_inserted"
  "m_supportedFormats usb_example_wav_only = [''wav'']"
  by (simp_all add: usb_example_wav_only_def setSupportedFormats_def)

lemma example_env_dir:
  "env_dir example_env ''mnt/usb/USB_1700000000000'' = Some example_directory"
  by (simp add: example_env_def)

text \<open>
  Claim C8 as amended: for a connected device whose mount directory exists and lists a
  file named \<^verbatim>\<open>Artist - Title.mp3\<close>, and with \<^verbatim>\<open>mp3\<close> among the configured supported
  formats (as it is by default), a scan by the device's id sets the device's media file
  list to the list built from the directory listing alone, and that list has an entry
  for the file with artist \<^verbatim>\<open>Artist\<close>, title \<^verbatim>\<open>Title\<close> and file type \<^verbatim>\<open>mp3\<close>.
\<close>

theorem scanMediaFiles_artist_title:
  assumes "i < length (m_connectedDevices st)"
    and "isConnected (m_connectedDevices st ! i)"
    and "env_dir env (mountPoint (m_connectedDevices st ! i)) = Some dir"
    and "e \<in> set (dir_files dir)"
    and "de_fileName e = ''Artist - Title.mp3''"
    and "''mp3'' \<in> set (m_supportedFormats st)"
  shows "let device =
           m_connectedDevices (scanMediaFiles env (usbDeviceId (m_connectedDevices st ! i)) st) ! i
         in mediaFiles device = scan_directory (m_supportedFormats st) dir \<and>
            (\<exists>m \<in> set (mediaFiles device).
               fileName m = ''Artist - Title.mp3'' \<and> artist m = ''Artist'' \<and>
               title m = ''Title'' \<and> fileType m = ''mp3'')"
proof -
  have "make_mediaFile dir e \<in> set (scan_directory (m_supportedFormats st) dir)"
    using assms(4-6) by (rule scan_directory_sample)
  then show ?thesis
    unfolding Let_def scanMediaFiles_replaces [OF assms(1-3)]
    using make_mediaFile_sample [OF assms(5), of dir] by blast
qed

theorem scanMediaFiles_artist_title_witness:
  "isConnected (m_connectedDevices usb_example_inserted ! 0) \<and>
   usbDeviceName (m_connectedDevices usb_example_inserted ! 0) = ''USB_DRIVE_01'' \<and>
   env_dir example_env (mountPoint (m_connectedDevices usb_example_inserted ! 0))
     = Some example_directory \<and>
   ''mp3'' \<in> set (m_supportedFormats usb_example_inserted) \<and>
   (\<exists>m \<in> set (mediaFiles
       (m_connectedDevices
          (scanMediaFiles example_env ''USB_1700000000000'' usb_example_inserted) ! 0)).
      fileName m = ''Artist - Title.mp3'' \<and> artist m = ''Artist'' \<and>
      title m = ''Title'' \<and> fileType m = ''mp3'')"
proof -
  let ?e = "hd (dir_files example_directory)"
  have h1: "0 < length (m_connectedDevices usb_example_inserted)"
    by (simp add: usb_example_inserted_devices)
  have h2: "isConnected (m_connectedDevices usb_example_inserted ! 0)"
    by (simp add: usb_example_inserted_devices)
  have h3: "env_dir example_env (mountPoint (m_connectedDevices usb_example_inserted ! 0))
              = Some example_directory"
    by (simp add: usb_example_inserted_devices example_env_dir)
  have h4: "?e \<in> set (dir_files example_directory)"
    by (simp add: example_directory_def)
  have h5: "de_fileName ?e = ''Artist - Title.mp3''"
    by (simp add: example_directory_def)
  have h6: "''mp3'' \<in> set (m_supportedFormats usb_example_inserted)"
    by (simp add: usb_example_inserted_devices DEFAULT_SUPPORTED_FORMATS_def)
  have i: "usbDeviceId (m_connectedDevices usb_example_inserted ! 0) = ''USB_1700000000000''"
    "usbDeviceName (m_connectedDevices usb_example_inserted ! 0) = ''USB_DRIVE_01''"
    by (simp_all add: usb_example_inserted_devices)
  from scanMediaFiles_artist_title [OF h1 h2 h3 h4 h5 h6] h2 h3 h6 i
  show ?thesis unfolding Let_def by metis
qed

text \<open>
  Claim C8 as stated does not hold in every configuration: the supported formats are
  set at run time, and after \<^verbatim>\<open>setSupportedFormats\<close> with a list without \<^verbatim>\<open>mp3\<close> the
  scan of the same directory yields no entry for the file.
\<close>

theorem scanMediaFiles_other_formats_counterexample:
  "isConnected (m_connectedDevices usb_example_wav_only ! 0) \<and>
   usbDeviceId (m_connectedDevices usb_example_wav_only ! 0) = ''USB_1700000000000'' \<and>
   env_dir example_env (mountPoint (m_connectedDevices usb_example_wav_only ! 0))
     = Some example_directory \<and>
   ''Artist - Title.mp3'' \<in> de_fileName ` set (dir_files example_directory) \<and>
   mediaFiles
     (m_connectedDevices
        (scanMediaFiles example_env ''USB_1700000000000'' usb_example_wav_only) ! 0) = []"
proof -
  have h1: "0 < length (m_connectedDevices usb_example_wav_only)"
    by (simp add: usb_example_wav_only_devices usb_example_inserted_devices)
  have h2: "isConnected (m_connectedDevices usb_example_wav_only ! 0)"
    by (simp add: usb_example_wav_only_devices usb_example_inserted_devices)
  have h3: "env_dir example_env (mountPoint (m_connectedDevices usb_example_wav_only ! 0))
              = Some example_directory"
    by (simp add: usb_example_wav_only_devices usb_example_inserted_devices example_env_dir)
  have i: "usbDeviceId (m_connectedDevices usb_example_wav_only ! 0) = ''USB_1700000000000''"
    by (simp add: usb_example_wav_only_devices usb_example_inserted_devices)
  have s: "scan_directory [''wav''] example_directory = []"
    by (simp add: scan_directory_def entryInfoList_def example_directory_def matches_filter_def
        endsWith_def toLower_def toLower_char_def Let_def)
  have f: "''Artist - Title.mp3'' \<in> de_fileName ` set (dir_files example_directory)"
    by (simp add: example_directory_def)
  from scanMediaFiles_replaces [OF h1 h2 h3] h2 h3 i s f
  show ?thesis by (simp add: usb_example_wav_only_devices)
qed

section \<open>Properties of the sensor simulator\<close>

subsection \<open>C4: readings and the physical bounds\<close>

lemma DBL_MAX_large: "2 ^ 100 \<le> DBL_MAX"
proof -
  have a: "(2::real) ^ 971 \<le> 2 ^ 1023" by (rule power_increasing) simp_all
  have "(2::real) ^ 1024 = 2 ^ (Suc 1023)" by simp
  then have b: "(2::real) ^ 1024 = 2 * 2 ^ 1023" by (simp only: power_Suc)
  have c: "(2::real) ^ 100 \<le> 2 ^ 1023" by (rule power_increasing) simp_all
  show ?thesis unfolding DBL_MAX_def using a b c by linarith
qed

lemma to_double_small: "\<bar>r\<bar> \<le> 2 ^ 100 \<Longrightarrow> to_double r = Finite r"
  using DBL_MAX_large by (auto simp: to_double_def)

lemma clamp_nan: "clamp NaN (Finite lo) (Finite hi) = NaN"
  by (simp add: clamp_def)

lemma clamp_in_range:
  "lo \<le> hi \<Longrightarrow> v \<noteq> NaN \<Longrightarrow> in_range lo hi (clamp v (Finite lo) (Finite hi))"
  by (cases v) (simp_all add: clamp_def)

lemma clamp_result:
  "lo \<le> hi \<Longrightarrow>
   (if v = NaN then clamp v (Finite lo) (Finite hi) = NaN
    else in_range lo hi (clamp v (Finite lo) (Finite hi)))"
  by (simp add: clamp_nan clamp_in_range)

lemma applyCalibration_fields:
  "temperature (m_currentData (applyCalibration g))
     = clamp (dadd (temperature (m_currentData g)) (m_tempOffset g)) (Finite (- 40)) (Finite 80)"
  "humidity (m_currentData (applyCalibration g))
     = clamp (dadd (humidity (m_currentData g)) (m_humidityOffset g)) (Finite 0) (Finite 100)"
  "pressure (m_currentData (applyCalibration g))
     = clamp (dadd (pressure (m_currentData g)) (m_pressureOffset g)) (Finite 800) (Finite 1200)"
  "lightLevel (m_currentData (applyCalibration g))
     = clamp (dadd (lightLevel (m_currentData g)) (m_lightOffset g)) (Finite 0) (Finite 10000)"
  by (simp_all add: applyCalibration_def Let_def)

lemma generateRandomData_offsets:
  "m_tempOffset (generateRandomData rnd st) = m_tempOffset st"
  "m_humidityOffset (generateRandomData rnd st) = m_humidityOffset st"
  "m_pressureOffset (generateRandomData rnd st) = m_pressureOffset st"
  "m_lightOffset (generateRandomData rnd st) = m_lightOffset st"
  by (simp_all add: generateRandomData_def Let_def)

lemma updateSensorData_reading:
  "\<not> m_simulateSensorFailure st \<Longrightarrow>
   m_currentData (updateSensorData rnd now st)
     = (m_currentData (applyCalibration (generateRandomData rnd st)))
         \<lparr>timestamp := now, isValid := True\<rparr>"
  by (simp add: updateSensorData_def Let_def emit_i2c_def)

text \<open>
  Claim C4 as amended: unless the sensor failure fault is active, the reading left by a
  tick is marked valid, and for all sampling ranges, calibration offsets and draws, with
  or without corruption noise, each of its four quantities whose value after sample,
  noise and calibration offset is not NaN lies within its bounds: temperature in
  [-40, 80], humidity in [0, 100], pressure in [800, 1200], light level in [0, 10000]
  (an infinity is clamped to the nearer bound). A quantity whose value after the
  calibration offset is NaN is stored as NaN.
\<close>

theorem updateSensorData_in_bounds_or_nan:
  fixes rnd :: "'w::len word i2c_draws"
  assumes "\<not> m_simulateSensorFailure st"
  shows "let g = m_currentData (generateRandomData rnd st);
             d = m_currentData (updateSensorData rnd now st)
         in isValid d \<and>
            (if dadd (temperature g) (m_tempOffset st) = NaN then temperature d = NaN
             else in_range (- 40) 80 (temperature d)) \<and>
            (if dadd (humidity g) (m_humidityOffset st) = NaN then humidity d = NaN
             else in_range 0 100 (humidity d)) \<and>
            (if dadd (pressure g) (m_pressureOffset st) = NaN then pressure d = NaN
             else in_range 800 1200 (pressure d)) \<and>
            (if dadd (lightLevel g) (m_lightOffset st) = NaN then lightLevel d = NaN
             else in_range 0 10000 (lightLevel d))"
proof -
  let ?g = "generateRandomData rnd st"
  let ?d = "m_currentData (updateSensorData rnd now st)"
  note d = updateSensorData_reading [OF assms, of rnd now]
  have v: "isValid ?d" by (simp add: d)
  have t: "temperature ?d
      = clamp (dadd (temperature (m_currentData ?g)) (m_tempOffset st)) (Finite (- 40)) (Finite 80)"
    by (simp add: d applyCalibration_fields generateRandomData_offsets)
  have h: "humidity ?d
      = clamp (dadd (humidity (m_currentData ?g)) (m_humidityOffset st)) (Finite 0) (Finite 100)"
    by (simp add: d applyCalibration_fields generateRandomData_offsets)
  have p: "pressure ?d
      = clamp (dadd (pressure (m_currentData ?g)) (m_pressureOffset st)) (Finite 800) (Finite 1200)"
    by (simp add: d applyCalibration_fields generateRandomData_offsets)
  have l: "lightLevel ?d
      = clamp (dadd (lightLevel (m_currentData ?g)) (m_lightOffset st)) (Finite 0) (Finite 10000)"
    by (simp add: d applyCalibration_fields generateRandomData_offsets)
  show ?thesis
    unfolding Let_def t h p l
    by (intro conjI v clamp_result) simp_all
qed


lemmas i2c_eval = updateSensorData_def generateRandomData_def applyCalibration_def Let_def
  emit_i2c_def simulateDataCorruption_def calibrateLight_def calibrateTemperature_def
  calibrateHumidity_def setHumidityRange_def MockI2C_new_def example_draws_def
  example_sensor_data_def sample_def corruption_noise_def clamp_def dsub_def to_double_small

text \<open>
  Claim C4 as stated does not hold for every calibration offset: \<^verbatim>\<open>calibrateTemperature\<close>
  stores any \<^verbatim>\<open>double\<close>, and with the offset NaN the sum is NaN, which \<^verbatim>\<open>std::clamp\<close>
  returns as it is; the reading is marked valid with a temperature that is no number.
\<close>

theorem updateSensorData_nan_offset_counterexample:
  "\<not> m_simulateSensorFailure i2c_example_nan_offset \<and>
   m_tempOffset i2c_example_nan_offset = NaN \<and>
   isValid (m_currentData
     (updateSensorData example_draws ''2023-11-14 22:13:20.000'' i2c_example_nan_offset)) \<and>
   temperature (m_currentData
     (updateSensorData example_draws ''2023-11-14 22:13:20.000'' i2c_example_nan_offset)) = NaN \<and>
   \<not> in_range (- 40) 80 (temperature (m_currentData
     (updateSensorData example_draws ''2023-11-14 22:13:20.000'' i2c_example_nan_offset)))"
  by (simp add: i2c_example_nan_offset_def i2c_eval)


lemma example_noise:
  "corruption_noise (3 :: 64 word) = Finite (18446744073709551569 / 10)"
  "corruption_noise (53 :: 64 word) = Finite (3 / 10)"
  by (simp_all add: corruption_noise_def to_double_small)

lemma i2c_example_corrupted_generated:
  "m_currentData (generateRandomData example_draws i2c_example_corrupted)
     = \<lparr> temperature = Finite (18446744073709551569 / 10 + 43 / 2),
         humidity = Finite (453 / 10), pressure = Finite 1013,
         lightLevel = Finite 775, isValid = False, timestamp = [] \<rparr>"
  by (simp add: generateRandomData_def Let_def i2c_example_corrupted_def
      simulateDataCorruption_def calibrateLight_def emit_i2c_def MockI2C_new_def
      example_draws_def example_sensor_data_def sample_def dsub_def example_noise to_double_small)


lemma i2c_example_corrupted_flags:
  "\<not> m_simulateSensorFailure i2c_example_corrupted"
  "m_simulateDataCorruption i2c_example_corrupted"
  "m_tempOffset i2c_example_corrupted = Finite 0"
  "m_humidityOffset i2c_example_corrupted = Finite 0"
  "m_pressureOffset i2c_example_corrupted = Finite 0"
  "m_lightOffset i2c_example_corrupted = Finite (- 5000)"
  by (simp_all add: i2c_example_corrupted_def simulateDataCorruption_def calibrateLight_def
      emit_i2c_def MockI2C_new_def)

theorem updateSensorData_in_bounds_or_nan_witness:
  "\<not> m_simulateSensorFailure i2c_example_corrupted \<and>
   m_simulateDataCorruption i2c_example_corrupted \<and>
   isValid (m_currentData
     (updateSensorData example_draws ''2023-11-14 22:13:20.000'' i2c_example_corrupted)) \<and>
   in_range (- 40) 80 (temperature (m_currentData
     (updateSensorData example_draws ''2023-11-14 22:13:20.000'' i2c_example_corrupted))) \<and>
   in_range 0 100 (humidity (m_currentData
     (updateSensorData example_draws ''2023-11-14 22:13:20.000'' i2c_example_corrupted))) \<and>
   in_range 800 1200 (pressure (m_currentData
     (updateSensorData example_draws ''2023-11-14 22:13:20.000'' i2c_example_corrupted))) \<and>
   in_range 0 10000 (lightLevel (m_currentData
     (updateSensorData example_draws ''2023-11-14 22:13:20.000'' i2c_example_corrupted)))"
proof -
  note f = i2c_example_corrupted_flags
  have n: "dadd (Finite (18446744073709551569 / 10 + 43 / 2)) (Finite 0) \<noteq> NaN"
    "dadd (Finite (453 / 10)) (Finite 0) \<noteq> NaN"
    "dadd (Finite 1013) (Finite 0) \<noteq> NaN"
    "dadd (Finite 775) (Finite (- 5000)) \<noteq> NaN"
    by (simp_all add: to_double_small)
  from updateSensorData_in_bounds_or_nan
    [OF f(1), of example_draws "''2023-11-14 22:13:20.000''"] n
  show ?thesis
    unfolding Let_def i2c_example_corrupted_generated f(3-6)
    using f(1,2) by simp
qed

subsection \<open>C3: saving and loading the calibration\<close>

lemma toDouble_of_double:
  "toDouble (QJsonValue_of_double v) dflt =
     (case v of Finite r \<Rightarrow> to_double r | _ \<Rightarrow> dflt)"
  by (cases v) simp_all

text \<open>What \<^verbatim>\<open>loadCalibrationData\<close> restores into a simulator \<open>st0\<close> from the document
  saved from \<open>st\<close>: the four offsets and the temperature range come from \<open>st\<close>, the
  other three ranges stay those of \<open>st0\<close>.\<close>

lemma calibration_save_load:
  "m_tempOffset (loadCalibrationData (Some (saveCalibrationData st)) st0)
     = toDouble (QJsonValue_of_double (m_tempOffset st)) (Finite 0)"
  "m_humidityOffset (loadCalibrationData (Some (saveCalibrationData st)) st0)
     = toDouble (QJsonValue_of_double (m_humidityOffset st)) (Finite 0)"
  "m_pressureOffset (loadCalibrationData (Some (saveCalibrationData st)) st0)
     = toDouble (QJsonValue_of_double (m_pressureOffset st)) (Finite 0)"
  "m_lightOffset (loadCalibrationData (Some (saveCalibrationData st)) st0)
     = toDouble (QJsonValue_of_double (m_lightOffset st)) (Finite 0)"
  "m_tempMin (loadCalibrationData (Some (saveCalibrationData st)) st0)
     = toDouble (QJsonValue_of_double (m_tempMin st)) (Finite 18)"
  "m_tempMax (loadCalibrationData (Some (saveCalibrationData st)) st0)
     = toDouble (QJsonValue_of_double (m_tempMax st)) (Finite 25)"
  "m_humidityMin (loadCalibrationData (Some (saveCalibrationData st)) st0) = m_humidityMin st0"
  "m_humidityMax (loadCalibrationData (Some (saveCalibrationData st)) st0) = m_humidityMax st0"
  "m_pressureMin (loadCalibrationData (Some (saveCalibrationData st)) st0) = m_pressureMin st0"
  "m_pressureMax (loadCalibrationData (Some (saveCalibrationData st)) st0) = m_pressureMax st0"
  "m_lightMin (loadCalibrationData (Some (saveCalibrationData st)) st0) = m_lightMin st0"
  "m_lightMax (loadCalibrationData (Some (saveCalibrationData st)) st0) = m_lightMax st0"
  by (simp_all add: loadCalibrationData_def saveCalibrationData_def obj_get_def Let_def)

text \<open>
  Claim C3 at a concrete input: a simulator with humidity range [30, 70] and humidity
  offset 2 is saved, and the document holds the range; a new simulator that loads the
  document has the offset 2 but the humidity range [40, 60] of the constructor.
\<close>

theorem calibration_ranges_lost_on_reload:
  "m_humidityMin i2c_example_configured = Finite 30 \<and>
   m_humidityMax i2c_example_configured = Finite 70 \<and>
   m_humidityOffset i2c_example_configured = Finite 2 \<and>
   obj_get (toObject (saveCalibrationData i2c_example_configured)) ''humidity_range''
     = JArray [JDouble 30, JDouble 70] \<and>
   m_humidityOffset i2c_example_restarted = Finite 2 \<and>
   m_humidityMin i2c_example_restarted = Finite 40 \<and>
   m_humidityMax i2c_example_restarted = Finite 60"
  by (simp add: i2c_example_restarted_def i2c_example_configured_def
      calibrateHumidity_def setHumidityRange_def emit_i2c_def MockI2C_new_def
      saveCalibrationData_def loadCalibrationData_def obj_get_def Let_def to_double_small)

end
